theory Spec2Isabelle
  imports Main "HOL-Library.Sublist"
begin

section \<open>JavaScript values\<close>

text \<open>
  The agent mode of the chat client lives in one file, \<^verbatim>\<open>src/agent.js\<close>: the entry
  point \<^verbatim>\<open>runAgentMode\<close>, the transport \<^verbatim>\<open>fetchAPIBackground\<close> and three helpers for
  the terminal bubble. This theory embeds them as HOL functions over an explicit world
  state.

  A JavaScript string is a sequence of UTF-16 code units, here a list of naturals;
  \<open>str\<close> turns an ASCII literal into one. The values the program handles are the values
  of JSON plus \<^verbatim>\<open>undefined\<close>. A number is kept as the decimal literal that denotes
  it: the program never computes with numbers, it only tests them for truthiness and
  converts them to strings, and these two operations of the engine on IEEE doubles are
  parameters (\<open>number_truthy\<close>, \<open>number_to_string\<close> below). An object is the list of its
  properties in source order; a later binding of a key overrides an earlier one.
\<close>

type_synonym jsstring = "nat list"

definition str :: "string \<Rightarrow> jsstring" where
  "str s = map of_char s"

datatype jsval =
    JUndefined
  | JNull
  | JBool bool
  | JNum jsstring
  | JStr jsstring
  | JArr "jsval list"
  | JObj "(jsstring \<times> jsval) list"

text \<open>An error object is determined by its message, all the program ever reads of it.\<close>

datatype error = Error jsstring

fun error_message :: "error \<Rightarrow> jsstring" where
  "error_message (Error m) = m"

section \<open>The world around the program\<close>

text \<open>
  The request body is kept structured (the program serialises it with
  \<^verbatim>\<open>JSON.stringify\<close> at the very end). The response is what the program reads of it:
  \<open>ok\<close>, \<open>status\<close> and the outcome of \<^verbatim>\<open>res.json()\<close>, which either rejects (\<open>Inl\<close>,
  with the message of the rejection) or yields the parsed body.
\<close>

datatype part = Text jsstring | InlineData jsstring jsstring

record turn =
  t_role :: jsstring
  t_parts :: "part list"

record request_body =
  contents :: "turn list"
  safetySettings :: jsval
  generationConfig :: jsval

record request =
  url :: jsstring
  http_method :: jsstring
  headers :: "(jsstring \<times> jsstring) list"
  body :: request_body

record response =
  ok :: bool
  status :: nat
  json :: "jsstring + jsval"

datatype fetch_outcome = Rejected jsstring | Responded response

text \<open>
  Everything the program does not decide: the two number operations of the engine, the
  message of the \<^verbatim>\<open>TypeError\<close> that the engine throws for an object it cannot convert
  to a primitive value, the outcome of the \<open>k\<close>-th \<^verbatim>\<open>fetch\<close> (which may depend on the
  request), the \<open>k\<close>-th reading of \<^verbatim>\<open>Date.now()\<close>, and which of two worker calls that
  both wait for the network settles first.
\<close>

record env =
  number_truthy :: "jsstring \<Rightarrow> bool"
  number_to_string :: "jsstring \<Rightarrow> jsstring"
  cannot_convert :: jsstring
  net :: "nat \<Rightarrow> request \<Rightarrow> fetch_outcome"
  now :: "nat \<Rightarrow> nat"
  b_settles_first :: bool

record message =
  m_role :: jsstring
  m_content :: jsval
  m_ts :: nat
  m_imageBase64 :: "jsstring option"
  m_imageDataUrl :: "jsstring option"

record hist =
  h_role :: jsstring
  h_content :: jsval

record pending_image =
  base64 :: jsstring
  dataUrl :: jsstring

text \<open>
  A terminal bubble in the messages container: its id, the text of its
  \<^verbatim>\<open>.term-content\<close> and the inline colour of that text, if one was set. The
  document is taken to hold no other element with an id of the form \<^verbatim>\<open>term_<digits>\<close>.
\<close>

record terminal =
  el_id :: jsstring
  el_text :: jsstring
  el_color :: "jsstring option"

record call_args =
  c_history :: "hist list"
  c_newUserText :: jsval
  c_imageBase64 :: "jsstring option"
  c_systemPrompt :: jsstring
  c_modelOverride :: jsstring

text \<open>
  The trace records, in order, the calls the program makes across its boundary and to
  its own helpers. \<open>ECall a r\<close> says that \<^verbatim>\<open>fetchAPIBackground\<close> was called with the
  arguments \<open>a\<close> and that the promise it returned settles with \<open>r\<close>.
\<close>

datatype event =
    EAppendMessage message
  | EClearImage
  | EScrollBottom
  | EToast jsstring jsstring
  | EConsoleError
  | ECreateTerminal jsstring
  | EUpdateTerminal jsstring jsstring bool
  | ERemoveTerminal jsstring
  | ECall call_args "error + jsval"

record world =
  LS :: "jsstring \<Rightarrow> jsstring option"
  messages :: "message list"
  pendingImage :: "pending_image option"
  sendDisabled :: bool
  isStreaming :: bool
  terminals :: "terminal list"
  requests :: "request list"
  clock_reads :: nat
  trace :: "event list"

section \<open>Operations of the language\<close>

fun decimal :: "nat \<Rightarrow> jsstring" where
  "decimal n = (if n < 10 then [0x30 + n] else decimal (n div 10) @ [0x30 + n mod 10])"

declare decimal.simps [simp del]

fun truthy :: "env \<Rightarrow> jsval \<Rightarrow> bool" where
  "truthy e JUndefined = False"
| "truthy e JNull = False"
| "truthy e (JBool b) = b"
| "truthy e (JNum n) = number_truthy e n"
| "truthy e (JStr s) = (s \<noteq> [])"
| "truthy e (JArr xs) = True"
| "truthy e (JObj kvs) = True"

fun join_comma :: "jsstring list \<Rightarrow> jsstring" where
  "join_comma [] = []"
| "join_comma [s] = s"
| "join_comma (s # t # ss) = s @ 0x2C # join_comma (t # ss)"

text \<open>
  \<^verbatim>\<open>String(v)\<close>, which is also what a template literal applies to \<^verbatim>\<open>${v}\<close> and
  \<^verbatim>\<open>new Error(v)\<close> to its argument. \<open>None\<close> is the \<^verbatim>\<open>TypeError\<close> for an object that
  cannot be converted to a primitive value. An object is converted by the method
  \<^verbatim>\<open>toString\<close>, which it inherits unless it has an own property of that name; an own
  property is a value of JSON and not callable, and \<^verbatim>\<open>valueOf\<close> does not yield a
  primitive either. An array joins the conversions of its elements, the first failure
  being the failure of the whole.
\<close>

fun to_string :: "env \<Rightarrow> jsval \<Rightarrow> jsstring option" where
  "to_string e JUndefined = Some (str ''undefined'')"
| "to_string e JNull = Some (str ''null'')"
| "to_string e (JBool b) = Some (if b then str ''true'' else str ''false'')"
| "to_string e (JNum n) = Some (number_to_string e n)"
| "to_string e (JStr s) = Some s"
| "to_string e (JArr xs) =
     map_option join_comma
       (those (map (\<lambda>v. if v = JUndefined \<or> v = JNull then Some [] else to_string e v) xs))"
| "to_string e (JObj kvs) =
     (case map_of kvs (str ''toString'') of
        None \<Rightarrow> Some (str ''[object Object]'')
      | Some v \<Rightarrow> None)"

text \<open>\<^verbatim>\<open>a || b\<close>\<close>

definition js_or :: "env \<Rightarrow> jsval \<Rightarrow> jsval \<Rightarrow> jsval" where
  "js_or e a b = (if truthy e a then a else b)"

text \<open>
  \<^verbatim>\<open>v.k\<close> for a value \<open>v\<close> other than \<^verbatim>\<open>null\<close> and \<^verbatim>\<open>undefined\<close> and a key \<open>k\<close>
  that no built-in prototype defines (the program reads \<^verbatim>\<open>taskA\<close>, \<^verbatim>\<open>taskB\<close>,
  \<^verbatim>\<open>candidates\<close>, \<^verbatim>\<open>content\<close>, \<^verbatim>\<open>parts\<close>, \<^verbatim>\<open>text\<close>, \<^verbatim>\<open>error\<close> and \<^verbatim>\<open>message\<close>): an own
  property of an object, \<^verbatim>\<open>undefined\<close> otherwise.
\<close>

fun get_prop :: "jsval \<Rightarrow> jsstring \<Rightarrow> jsval" where
  "get_prop (JObj kvs) k = (case map_of (rev kvs) k of Some v \<Rightarrow> v | None \<Rightarrow> JUndefined)"
| "get_prop v k = JUndefined"

text \<open>\<^verbatim>\<open>v?.k\<close>\<close>

definition opt_prop :: "jsval \<Rightarrow> jsstring \<Rightarrow> jsval" where
  "opt_prop v k = (if v = JUndefined \<or> v = JNull then JUndefined else get_prop v k)"

text \<open>\<^verbatim>\<open>v?.[0]\<close>: the first element of an array, the first code unit of a string, the
  property \<^verbatim>\<open>"0"\<close> of an object.\<close>

fun opt_index0 :: "jsval \<Rightarrow> jsval" where
  "opt_index0 (JArr xs) = (case xs of [] \<Rightarrow> JUndefined | x # _ \<Rightarrow> x)"
| "opt_index0 (JStr s) = (case s of [] \<Rightarrow> JUndefined | c # _ \<Rightarrow> JStr [c])"
| "opt_index0 (JObj kvs) = get_prop (JObj kvs) (str ''0'')"
| "opt_index0 v = JUndefined"

subsection \<open>Strings\<close>

text \<open>
  \<^verbatim>\<open>trim\<close> removes white space and line terminators at both ends;
  \<open>remove_all p s\<close> is \<^verbatim>\<open>s.replace(/p/g, '')\<close> for a literal, non-empty pattern: the
  matches are found from left to right and do not overlap.
\<close>

definition js_ws :: "nat \<Rightarrow> bool" where
  "js_ws c =
     (c = 0x09 \<or> c = 0x0A \<or> c = 0x0B \<or> c = 0x0C \<or> c = 0x0D \<or> c = 0x20 \<or> c = 0xA0
      \<or> c = 0x1680 \<or> (0x2000 \<le> c \<and> c \<le> 0x200A) \<or> c = 0x2028 \<or> c = 0x2029
      \<or> c = 0x202F \<or> c = 0x205F \<or> c = 0x3000 \<or> c = 0xFEFF)"

definition trimEnd :: "jsstring \<Rightarrow> jsstring" where
  "trimEnd s = rev (dropWhile js_ws (rev s))"

definition trim :: "jsstring \<Rightarrow> jsstring" where
  "trim s = trimEnd (dropWhile js_ws s)"

fun remove_all :: "jsstring \<Rightarrow> jsstring \<Rightarrow> jsstring" where
  "remove_all pat [] = []"
| "remove_all pat (c # cs) =
     (if pat \<noteq> [] \<and> prefix pat (c # cs) then remove_all pat (drop (length pat - 1) cs)
      else c # remove_all pat cs)"

subsection \<open>\<^verbatim>\<open>JSON.parse\<close>\<close>

text \<open>
  The grammar of ECMA-404. The lexer reads one code unit at a time; a number and a
  keyword are read as the longest run of their characters and checked when the run
  ends (a run that is not one number or one keyword cannot be part of a JSON text).
  The parser keeps a stack of the arrays and objects that are open. \<open>None\<close> is the
  \<^verbatim>\<open>SyntaxError\<close>.
\<close>

datatype token =
    TLBrace | TRBrace | TLBrack | TRBrack | TColon | TComma
  | TString jsstring | TNumber jsstring | TTrue | TFalse | TNull

datatype lex_mode =
    LIdle
  | LString jsstring
  | LEscape jsstring
  | LUnicode jsstring "nat list"
  | LNumber jsstring
  | LWord jsstring

definition is_digit :: "nat \<Rightarrow> bool" where
  "is_digit c = (0x30 \<le> c \<and> c \<le> 0x39)"

definition json_ws :: "nat \<Rightarrow> bool" where
  "json_ws c = (c = 0x20 \<or> c = 0x09 \<or> c = 0x0A \<or> c = 0x0D)"

definition is_num_char :: "nat \<Rightarrow> bool" where
  "is_num_char c = (is_digit c \<or> c = 0x2D \<or> c = 0x2B \<or> c = 0x2E \<or> c = 0x65 \<or> c = 0x45)"

definition is_lower :: "nat \<Rightarrow> bool" where
  "is_lower c = (0x61 \<le> c \<and> c \<le> 0x7A)"

definition hex_digit :: "nat \<Rightarrow> nat option" where
  "hex_digit c =
     (if is_digit c then Some (c - 0x30)
      else if 0x61 \<le> c \<and> c \<le> 0x66 then Some (c - 0x61 + 10)
      else if 0x41 \<le> c \<and> c \<le> 0x46 then Some (c - 0x41 + 10)
      else None)"

definition simple_escape :: "nat \<Rightarrow> nat option" where
  "simple_escape c =
     (if c = 0x22 then Some 0x22
      else if c = 0x5C then Some 0x5C
      else if c = 0x2F then Some 0x2F
      else if c = 0x62 then Some 0x08
      else if c = 0x66 then Some 0x0C
      else if c = 0x6E then Some 0x0A
      else if c = 0x72 then Some 0x0D
      else if c = 0x74 then Some 0x09
      else None)"

definition valid_number :: "jsstring \<Rightarrow> bool" where
  "valid_number s =
     (let s1 = (case s of c # r \<Rightarrow> if c = 0x2D then r else s | [] \<Rightarrow> s);
          ip = takeWhile is_digit s1;
          r1 = dropWhile is_digit s1;
          int_ok = (case ip of [] \<Rightarrow> False | d # ds \<Rightarrow> if d = 0x30 then ds = [] else True);
          frac = (case r1 of c # r \<Rightarrow> c = 0x2E | [] \<Rightarrow> False);
          frac_ok = (if frac then takeWhile is_digit (tl r1) \<noteq> [] else True);
          r2 = (if frac then dropWhile is_digit (tl r1) else r1);
          ex = (case r2 of c # r \<Rightarrow> c = 0x65 \<or> c = 0x45 | [] \<Rightarrow> False);
          r3 = (case tl r2 of c # r \<Rightarrow> if c = 0x2B \<or> c = 0x2D then r else tl r2 | [] \<Rightarrow> []);
          exp_ok = (if ex then r3 \<noteq> [] \<and> list_all is_digit r3 else r2 = [])
      in int_ok \<and> frac_ok \<and> exp_ok)"

definition finish_number :: "jsstring \<Rightarrow> token option" where
  "finish_number acc = (if valid_number (rev acc) then Some (TNumber (rev acc)) else None)"

definition finish_word :: "jsstring \<Rightarrow> token option" where
  "finish_word acc =
     (if rev acc = str ''true'' then Some TTrue
      else if rev acc = str ''false'' then Some TFalse
      else if rev acc = str ''null'' then Some TNull
      else None)"

definition lex_idle :: "nat \<Rightarrow> (token list \<times> lex_mode) option" where
  "lex_idle c =
     (if json_ws c then Some ([], LIdle)
      else if c = 0x7B then Some ([TLBrace], LIdle)
      else if c = 0x7D then Some ([TRBrace], LIdle)
      else if c = 0x5B then Some ([TLBrack], LIdle)
      else if c = 0x5D then Some ([TRBrack], LIdle)
      else if c = 0x3A then Some ([TColon], LIdle)
      else if c = 0x2C then Some ([TComma], LIdle)
      else if c = 0x22 then Some ([], LString [])
      else if c = 0x2D \<or> is_digit c then Some ([], LNumber [c])
      else if is_lower c then Some ([], LWord [c])
      else None)"

definition after_token :: "token option \<Rightarrow> nat \<Rightarrow> (token list \<times> lex_mode) option" where
  "after_token t c =
     (case t of
        None \<Rightarrow> None
      | Some tok \<Rightarrow>
          (case lex_idle c of
             None \<Rightarrow> None
           | Some (ts, m) \<Rightarrow> Some (tok # ts, m)))"

fun lex_step :: "lex_mode \<Rightarrow> nat \<Rightarrow> (token list \<times> lex_mode) option" where
  "lex_step LIdle c = lex_idle c"
| "lex_step (LString acc) c =
     (if c = 0x22 then Some ([TString (rev acc)], LIdle)
      else if c = 0x5C then Some ([], LEscape acc)
      else if c < 0x20 then None
      else Some ([], LString (c # acc)))"
| "lex_step (LEscape acc) c =
     (if c = 0x75 then Some ([], LUnicode acc [])
      else (case simple_escape c of
              None \<Rightarrow> None
            | Some d \<Rightarrow> Some ([], LString (d # acc))))"
| "lex_step (LUnicode acc hs) c =
     (case hex_digit c of
        None \<Rightarrow> None
      | Some h \<Rightarrow>
          (if length hs = 3
           then Some ([], LString (foldl (\<lambda>v d. 16 * v + d) 0 (hs @ [h]) # acc))
           else Some ([], LUnicode acc (hs @ [h]))))"
| "lex_step (LNumber acc) c =
     (if is_num_char c then Some ([], LNumber (c # acc))
      else after_token (finish_number acc) c)"
| "lex_step (LWord acc) c =
     (if is_lower c then Some ([], LWord (c # acc))
      else after_token (finish_word acc) c)"

fun lex_end :: "lex_mode \<Rightarrow> token list option" where
  "lex_end LIdle = Some []"
| "lex_end (LNumber acc) = map_option (\<lambda>t. [t]) (finish_number acc)"
| "lex_end (LWord acc) = map_option (\<lambda>t. [t]) (finish_word acc)"
| "lex_end _ = None"

primrec lexer :: "lex_mode \<Rightarrow> jsstring \<Rightarrow> token list option" where
  "lexer m [] = lex_end m"
| "lexer m (c # cs) =
     (case lex_step m c of
        None \<Rightarrow> None
      | Some (ts, m') \<Rightarrow> map_option ((@) ts) (lexer m' cs))"

datatype frame =
    FTop
  | FDone jsval
  | FArrStart
  | FArrVal "jsval list"
  | FArrComma "jsval list"
  | FObjStart
  | FObjKey "(jsstring \<times> jsval) list" jsstring
  | FObjColon "(jsstring \<times> jsval) list" jsstring
  | FObjVal "(jsstring \<times> jsval) list"
  | FObjComma "(jsstring \<times> jsval) list"

fun deliver :: "jsval \<Rightarrow> frame list \<Rightarrow> frame list option" where
  "deliver v (FTop # st) = Some (FDone v # st)"
| "deliver v (FArrStart # st) = Some (FArrVal [v] # st)"
| "deliver v (FArrComma acc # st) = Some (FArrVal (acc @ [v]) # st)"
| "deliver v (FObjColon kvs k # st) = Some (FObjVal (kvs @ [(k, v)]) # st)"
| "deliver v _ = None"

fun expects_value :: "frame list \<Rightarrow> bool" where
  "expects_value (FTop # st) = True"
| "expects_value (FArrStart # st) = True"
| "expects_value (FArrComma acc # st) = True"
| "expects_value (FObjColon kvs k # st) = True"
| "expects_value _ = False"

fun parse_step :: "frame list \<Rightarrow> token \<Rightarrow> frame list option" where
  "parse_step st TLBrack = (if expects_value st then Some (FArrStart # st) else None)"
| "parse_step st TLBrace = (if expects_value st then Some (FObjStart # st) else None)"
| "parse_step st TRBrack =
     (case st of
        FArrStart # rest \<Rightarrow> deliver (JArr []) rest
      | FArrVal acc # rest \<Rightarrow> deliver (JArr acc) rest
      | _ \<Rightarrow> None)"
| "parse_step st TRBrace =
     (case st of
        FObjStart # rest \<Rightarrow> deliver (JObj []) rest
      | FObjVal kvs # rest \<Rightarrow> deliver (JObj kvs) rest
      | _ \<Rightarrow> None)"
| "parse_step st TComma =
     (case st of
        FArrVal acc # rest \<Rightarrow> Some (FArrComma acc # rest)
      | FObjVal kvs # rest \<Rightarrow> Some (FObjComma kvs # rest)
      | _ \<Rightarrow> None)"
| "parse_step st TColon =
     (case st of
        FObjKey kvs k # rest \<Rightarrow> Some (FObjColon kvs k # rest)
      | _ \<Rightarrow> None)"
| "parse_step st (TString s) =
     (case st of
        FObjStart # rest \<Rightarrow> Some (FObjKey [] s # rest)
      | FObjComma kvs # rest \<Rightarrow> Some (FObjKey kvs s # rest)
      | _ \<Rightarrow> deliver (JStr s) st)"
| "parse_step st (TNumber n) = deliver (JNum n) st"
| "parse_step st TTrue = deliver (JBool True) st"
| "parse_step st TFalse = deliver (JBool False) st"
| "parse_step st TNull = deliver JNull st"

primrec parse_tokens :: "frame list \<Rightarrow> token list \<Rightarrow> jsval option" where
  "parse_tokens st [] = (case st of [FDone v] \<Rightarrow> Some v | _ \<Rightarrow> None)"
| "parse_tokens st (t # ts) =
     (case parse_step st t of
        None \<Rightarrow> None
      | Some st' \<Rightarrow> parse_tokens st' ts)"

definition JSON_parse :: "jsstring \<Rightarrow> jsval option" where
  "JSON_parse s =
     (case lexer LIdle s of
        None \<Rightarrow> None
      | Some ts \<Rightarrow> parse_tokens [FTop] ts)"

section \<open>External collaborators\<close>

text \<open>
  The functions of the page that \<^verbatim>\<open>src/agent.js\<close> calls and does not define. Each call
  across this boundary is recorded in the trace.
\<close>

text \<open>Modelled from the spec: \<^verbatim>\<open>LS.get\<close>, the local credential lookup, "a persisted
  key-value pair holding the API key under a fixed namespaced key"; the second argument
  is the value for an absent key.\<close>

definition LS_get :: "world \<Rightarrow> jsstring \<Rightarrow> jsstring \<Rightarrow> jsstring" where
  "LS_get w k d = (case LS w k of None \<Rightarrow> d | Some v \<Rightarrow> v)"

text \<open>Modelled from the spec: \<^verbatim>\<open>appendMessage(turn)\<close> of the DOM/UI boundary. The turn
  becomes the last one of the active chat, which \<^verbatim>\<open>chat.messages.slice(0, -1)\<close> in line 41
  relies on.\<close>

definition appendMessage :: "message \<Rightarrow> world \<Rightarrow> world" where
  "appendMessage m w = w\<lparr>messages := messages w @ [m], trace := trace w @ [EAppendMessage m]\<rparr>"

text \<open>Modelled from the spec: \<^verbatim>\<open>clearImage()\<close> of the DOM/UI boundary drops the pending
  image.\<close>

definition clearImage :: "world \<Rightarrow> world" where
  "clearImage w = w\<lparr>pendingImage := None, trace := trace w @ [EClearImage]\<rparr>"

text \<open>Modelled from the spec: \<^verbatim>\<open>toast(message, kind)\<close> of the DOM/UI boundary, a
  notification to the user.\<close>

definition toast :: "jsstring \<Rightarrow> jsstring \<Rightarrow> world \<Rightarrow> world" where
  "toast m kind w = w\<lparr>trace := trace w @ [EToast m kind]\<rparr>"

text \<open>Modelled from the spec: \<^verbatim>\<open>scrollBottom()\<close>, part of the rendering that the spec
  leaves outside; it changes nothing the program reads.\<close>

definition scrollBottom :: "world \<Rightarrow> world" where
  "scrollBottom w = w\<lparr>trace := trace w @ [EScrollBottom]\<rparr>"

text \<open>The host: \<^verbatim>\<open>console.error\<close> and \<^verbatim>\<open>Date.now()\<close>.\<close>

definition console_error :: "world \<Rightarrow> world" where
  "console_error w = w\<lparr>trace := trace w @ [EConsoleError]\<rparr>"

definition Date_now :: "env \<Rightarrow> world \<Rightarrow> nat \<times> world" where
  "Date_now e w = (now e (clock_reads w), w\<lparr>clock_reads := Suc (clock_reads w)\<rparr>)"

section \<open>Terminal bubble helpers\<close>

text \<open>
  Lines 212 to 244. \<^verbatim>\<open>document.getElementById\<close> yields the first element, in document
  order, with the id; \<open>update_first\<close> and \<open>remove_first\<close> change and remove that element.
  Every bubble has a \<^verbatim>\<open>.term-content\<close>, so the test \<^verbatim>\<open>if (content)\<close> in line 235
  succeeds.
\<close>

fun update_first :: "('a \<Rightarrow> bool) \<Rightarrow> ('a \<Rightarrow> 'a) \<Rightarrow> 'a list \<Rightarrow> 'a list" where
  "update_first P f [] = []"
| "update_first P f (x # xs) = (if P x then f x # xs else x # update_first P f xs)"

fun remove_first :: "('a \<Rightarrow> bool) \<Rightarrow> 'a list \<Rightarrow> 'a list" where
  "remove_first P [] = []"
| "remove_first P (x # xs) = (if P x then xs else x # remove_first P xs)"

definition getElementById :: "world \<Rightarrow> jsstring \<Rightarrow> terminal option" where
  "getElementById w i = find (\<lambda>el. el_id el = i) (terminals w)"

definition createTerminalBubble :: "env \<Rightarrow> world \<Rightarrow> jsstring \<times> world" where
  "createTerminalBubble e w =
     (let (t, w1) = Date_now e w;
          i = str ''term_'' @ decimal t;
          el = \<lparr>el_id = i, el_text = str ''> Initializing...'', el_color = None\<rparr>;
          w2 = w1\<lparr>terminals := terminals w1 @ [el], trace := trace w1 @ [ECreateTerminal i]\<rparr>
      in (i, scrollBottom w2))"

definition updateTerminal :: "jsstring \<Rightarrow> jsstring \<Rightarrow> bool \<Rightarrow> world \<Rightarrow> world" where
  "updateTerminal i txt isError w =
     (let w1 = w\<lparr>trace := trace w @ [EUpdateTerminal i txt isError]\<rparr>
      in case getElementById w i of
           None \<Rightarrow> w1
         | Some el \<Rightarrow>
             w1\<lparr>terminals :=
                  update_first (\<lambda>el. el_id el = i)
                    (\<lambda>el. el\<lparr>el_color := (if isError then Some (str ''var(--danger)'')
                                           else el_color el),
                              el_text := txt\<rparr>)
                    (terminals w)\<rparr>)"

definition removeTerminal :: "jsstring \<Rightarrow> world \<Rightarrow> world" where
  "removeTerminal i w =
     (let w1 = w\<lparr>trace := trace w @ [ERemoveTerminal i]\<rparr>
      in case getElementById w i of
           None \<Rightarrow> w1
         | Some el \<Rightarrow> w1\<lparr>terminals := remove_first (\<lambda>el. el_id el = i) (terminals w)\<rparr>)"

section \<open>The transport: \<^verbatim>\<open>fetchAPIBackground\<close>\<close>

definition line_terminator :: "nat \<Rightarrow> bool" where
  "line_terminator c = (c = 0x0A \<or> c = 0x0D \<or> c = 0x2028 \<or> c = 0x2029)"

text \<open>\<^verbatim>\<open>imageBase64.match(/^data:(image\/[^;]+);base64,(.+)/)\<close>: the two groups.\<close>

definition match_data_url :: "jsstring \<Rightarrow> (jsstring \<times> jsstring) option" where
  "match_data_url s =
     (if prefix (str ''data:image/'') s
      then (let r = drop (length (str ''data:image/'')) s;
                sub = takeWhile (\<lambda>c. c \<noteq> 0x3B) r;
                r1 = dropWhile (\<lambda>c. c \<noteq> 0x3B) r;
                payload = takeWhile (\<lambda>c. \<not> line_terminator c) (drop (length (str '';base64,'')) r1)
            in if sub \<noteq> [] \<and> prefix (str '';base64,'') r1 \<and> payload \<noteq> []
               then Some (str ''image/'' @ sub, payload)
               else None)
      else None)"

definition image_parts :: "jsstring option \<Rightarrow> part list" where
  "image_parts imageBase64 =
     (case imageBase64 of
        None \<Rightarrow> []
      | Some img \<Rightarrow>
          (if img = [] then []
           else (case match_data_url img of
                   Some (mimeType, payload) \<Rightarrow> [InlineData mimeType payload]
                 | None \<Rightarrow> [InlineData (str ''image/jpeg'') img])))"

definition personaPrefix :: "jsstring \<Rightarrow> turn list" where
  "personaPrefix systemPrompt =
     (if systemPrompt \<noteq> []
      then [\<lparr>t_role = str ''user'', t_parts = [Text (str ''[System Instructions] '' @ systemPrompt)]\<rparr>,
            \<lparr>t_role = str ''model'', t_parts = [Text (str ''Understood.'')]\<rparr>]
      else [])"

text \<open>Lines 168 to 171; \<open>None\<close> when \<^verbatim>\<open>String(m.content || '')\<close> throws for a turn.\<close>

definition formattedHistory :: "env \<Rightarrow> hist list \<Rightarrow> turn list option" where
  "formattedHistory e history =
     those (map (\<lambda>m. map_option
                        (\<lambda>s. \<lparr>t_role = (if h_role m = str ''assistant'' then str ''model''
                                         else str ''user''),
                              t_parts = [Text s]\<rparr>)
                        (to_string e (js_or e (h_content m) (JStr [])))) history)"

definition safety_settings :: jsval where
  "safety_settings =
     JArr (map (\<lambda>c. JObj [(str ''category'', JStr (str c)),
                          (str ''threshold'', JStr (str ''BLOCK_MEDIUM_AND_ABOVE''))])
       [''HARM_CATEGORY_HARASSMENT'', ''HARM_CATEGORY_HATE_SPEECH'',
        ''HARM_CATEGORY_SEXUALLY_EXPLICIT'', ''HARM_CATEGORY_DANGEROUS_CONTENT''])"

definition generation_config :: jsval where
  "generation_config =
     JObj [(str ''temperature'', JNum (str ''0.9'')), (str ''maxOutputTokens'', JNum (str ''8192''))]"

definition default_model :: jsstring where
  "default_model = str ''gemma-3-27b-it''"

text \<open>
  Lines 145 to 199: the request that is handed to \<^verbatim>\<open>fetch\<close>. \<open>None\<close> when one of the
  two conversions to a string (lines 149 and 170) throws: no request is built then.
\<close>

definition build_request ::
  "env \<Rightarrow> jsstring \<Rightarrow> hist list \<Rightarrow> jsval \<Rightarrow> jsstring option \<Rightarrow> jsstring \<Rightarrow> jsstring
     \<Rightarrow> request option" where
  "build_request e apiKey history newUserText imageBase64 systemPrompt modelOverride =
     (let model = (if modelOverride \<noteq> [] then modelOverride else default_model);
          API_URL = str ''https://generativelanguage.googleapis.com/v1beta/models/'' @ model
                    @ str '':generateContent''
      in case to_string e (js_or e newUserText (JStr [])) of
           None \<Rightarrow> None
         | Some safeText \<Rightarrow>
             (case formattedHistory e history of
                None \<Rightarrow> None
              | Some turns \<Rightarrow>
                  Some \<lparr>url = API_URL @ str ''?key='' @ apiKey,
                        http_method = str ''POST'',
                        headers = [(str ''Content-Type'', str ''application/json'')],
                        body = \<lparr>contents = personaPrefix systemPrompt @ turns
                                   @ [\<lparr>t_role = str ''user'',
                                       t_parts = Text safeText # image_parts imageBase64\<rparr>],
                                safetySettings = safety_settings,
                                generationConfig = generation_config\<rparr>\<rparr>))"

text \<open>\<^verbatim>\<open>data?.candidates?.[0]?.content?.parts?.[0]?.text\<close>\<close>

definition candidate_text :: "jsval \<Rightarrow> jsval" where
  "candidate_text data =
     opt_prop (opt_index0 (opt_prop (opt_prop (opt_index0 (opt_prop data (str ''candidates'')))
       (str ''content'')) (str ''parts''))) (str ''text'')"

text \<open>Lines 201 to 207: what the call makes of the response.\<close>

text \<open>Line 202 and the first operand in line 203:
  \<^verbatim>\<open>err?.error?.message\<close> for \<^verbatim>\<open>err = await res.json().catch(() => ({}))\<close>.\<close>

definition vendor_message :: "response \<Rightarrow> jsval" where
  "vendor_message res =
     (let err = (case json res of Inl rejection \<Rightarrow> JObj [] | Inr v \<Rightarrow> v)
      in opt_prop (opt_prop err (str ''error'')) (str ''message''))"

text \<open>In line 203 \<^verbatim>\<open>new Error(m)\<close> converts a truthy message \<open>m\<close> to a string; when
  that throws, the \<^verbatim>\<open>TypeError\<close> is what the call throws.\<close>

definition read_response :: "env \<Rightarrow> response \<Rightarrow> error + jsval" where
  "read_response e res =
     (if \<not> ok res
      then (if truthy e (vendor_message res)
            then (case to_string e (vendor_message res) of
                    None \<Rightarrow> Inl (Error (cannot_convert e))
                  | Some m \<Rightarrow> Inl (Error m))
            else Inl (Error (str ''HTTP '' @ decimal (status res))))
      else (case json res of
              Inl rejection \<Rightarrow> Inl (Error rejection)
            | Inr data \<Rightarrow> Inr (js_or e (candidate_text data) (JStr []))))"

definition transport ::
  "env \<Rightarrow> hist list \<Rightarrow> jsval \<Rightarrow> jsstring option \<Rightarrow> jsstring \<Rightarrow> jsstring \<Rightarrow> world
     \<Rightarrow> world \<times> (error + jsval)" where
  "transport e history newUserText imageBase64 systemPrompt modelOverride w =
     (let apiKey = LS_get w (str ''aura:apikey'') []
      in if apiKey = [] then (w, Inl (Error (str ''No API key saved.'')))
         else (case build_request e apiKey history newUserText imageBase64 systemPrompt
                      modelOverride of
                 None \<Rightarrow> (w, Inl (Error (cannot_convert e)))
               | Some req \<Rightarrow>
                   (w\<lparr>requests := requests w @ [req]\<rparr>,
                    (case net e (length (requests w)) req of
                       Rejected m \<Rightarrow> Inl (Error m)
                     | Responded res \<Rightarrow> read_response e res))))"

text \<open>
  The function itself: the transport, and the entry \<open>ECall\<close> of the trace for the call
  and the value its promise settles with.
\<close>

definition fetchAPIBackground ::
  "env \<Rightarrow> hist list \<Rightarrow> jsval \<Rightarrow> jsstring option \<Rightarrow> jsstring \<Rightarrow> jsstring \<Rightarrow> world
     \<Rightarrow> world \<times> (error + jsval)" where
  "fetchAPIBackground e history newUserText imageBase64 systemPrompt modelOverride w =
     (let (w1, r) = transport e history newUserText imageBase64 systemPrompt modelOverride w;
          a = \<lparr>c_history = history, c_newUserText = newUserText, c_imageBase64 = imageBase64,
               c_systemPrompt = systemPrompt, c_modelOverride = modelOverride\<rparr>
      in (w1\<lparr>trace := trace w1 @ [ECall a r]\<rparr>, r))"

section \<open>The pipeline: \<^verbatim>\<open>runAgentMode\<close>\<close>

definition orchestratorPrompt :: jsstring where
  \<open>orchestratorPrompt = str (''You are the Orchestrator. The user has submitted a complex request. Break this request into two distinct tasks for two worker agents. '' @
    ''**Crucial Contract:** If the task involves coding, you MUST explicitly define shared CSS classes, HTML IDs, and JavaScript variable names so the workers are perfectly synced. '' @
    ''**Output Format:** You must output STRICTLY a valid JSON object with exactly two keys: "taskA" and "taskB". Do not include markdown formatting or any other text.'')\<close>

definition workerSystemPrompt :: jsstring where
  "workerSystemPrompt = str ''You are a specialized worker node. Execute the following task perfectly. Adhere strictly to any variable names or IDs provided.''"

definition synthesizerPrompt :: jsstring where
  "synthesizerPrompt = str (''You are the final compiler and Senior Code Reviewer. You have received components from two parallel workers. '' @
    ''Stitch them into a single, flawless output for the user. '' @
    ''**Crucially:** check for programmatic mismatches. Ensure all CSS classes, HTML IDs, and variables match perfectly. '' @
    ''Fix any broken logic. Output the final, polished response directly to the user.'')"

text \<open>Lines 62 and 63, the body of the inner \<^verbatim>\<open>try\<close>. A reply that is not a string has
  no \<^verbatim>\<open>replace\<close> method: the \<^verbatim>\<open>TypeError\<close> is caught like the \<^verbatim>\<open>SyntaxError\<close>.\<close>

definition cleanJson :: "jsstring \<Rightarrow> jsstring" where
  "cleanJson s = trim (remove_all (str ''```'') (remove_all (str ''```json'') s))"

fun parse_tasks :: "jsval \<Rightarrow> jsval option" where
  "parse_tasks (JStr s) = JSON_parse (cleanJson s)"
| "parse_tasks _ = None"

text \<open>
  \<^verbatim>\<open>Promise.all\<close> of two promises: both values, in the order of the array, or the
  rejection that comes first; when both reject, \<open>b_first\<close> says that the second promise
  of the array rejects before the first.

  A call that sends no request has thrown before its first \<^verbatim>\<open>await\<close> (no key stored, or
  a conversion that throws): its promise is rejected when the call returns. The two worker
  calls are made one after the other, \<open>w1\<close>, \<open>w2\<close> and \<open>w3\<close> being the worlds before
  A's call, between the two and after B's. So A's rejection comes first when A sends no
  request, B's comes first when A sends one and B sends none, and the environment decides
  when both wait for the network.
\<close>

definition b_rejects_first :: "env \<Rightarrow> world \<Rightarrow> world \<Rightarrow> world \<Rightarrow> bool" where
  "b_rejects_first e w1 w2 w3 =
     (if length (requests w2) = length (requests w1) then False
      else if length (requests w3) = length (requests w2) then True
      else b_settles_first e)"

fun Promise_all2 :: "bool \<Rightarrow> error + 'a \<Rightarrow> error + 'b \<Rightarrow> error + ('a \<times> 'b)" where
  "Promise_all2 b_first (Inr a) (Inr b) = Inr (a, b)"
| "Promise_all2 b_first (Inl ea) (Inr b) = Inl ea"
| "Promise_all2 b_first (Inr a) (Inl eb) = Inl eb"
| "Promise_all2 b_first (Inl ea) (Inl eb) = Inl (if b_first then eb else ea)"

text \<open>Lines 101 to 107, the template literal and its \<^verbatim>\<open>trim\<close>; \<open>None\<close> when the
  conversion of \<^verbatim>\<open>${resultA}\<close> or of \<^verbatim>\<open>${resultB}\<close> throws.\<close>

definition combinedInput :: "env \<Rightarrow> jsval \<Rightarrow> jsval \<Rightarrow> jsstring option" where
  "combinedInput e resultA resultB =
     (case to_string e resultA of
        None \<Rightarrow> None
      | Some a \<Rightarrow>
          (case to_string e resultB of
             None \<Rightarrow> None
           | Some b \<Rightarrow>
               Some (trim ([0x0A] @ str ''--- WORKER A OUTPUT ---'' @ [0x0A] @ a @ [0x0A, 0x0A]
                           @ str ''--- WORKER B OUTPUT ---'' @ [0x0A] @ b @ [0x0A]
                           @ str ''    ''))))"

text \<open>\<^verbatim>\<open>userMsg.imageBase64 || null\<close>\<close>

definition or_null :: "jsstring option \<Rightarrow> jsstring option" where
  "or_null x = (case x of None \<Rightarrow> None | Some s \<Rightarrow> if s = [] then None else Some s)"

text \<open>
  The body of the outer \<^verbatim>\<open>try\<close> (lines 35 to 124) is straight-line code in four parts,
  marked by the banners of the source. Each part is a function here, and ends by entering
  the next one; \<open>Inl\<close> is the error the body throws.
\<close>

text \<open>Lines 41 to 43: \<^verbatim>\<open>chat.messages.slice(0, -1)\<close>, mapped to role and content.\<close>

definition hist_of_message :: "message \<Rightarrow> hist" where
  "hist_of_message m = \<lparr>h_role = m_role m, h_content = m_content m\<rparr>"

definition history_of :: "world \<Rightarrow> hist list" where
  "history_of w = map hist_of_message (butlast (messages w))"

text \<open>Lines 120 to 124, \<^verbatim>\<open>FINALIZE\<close>.\<close>

definition finalize :: "env \<Rightarrow> jsstring \<Rightarrow> jsval \<Rightarrow> world \<Rightarrow> world" where
  "finalize e terminalId finalResponse w =
     (let w1 = removeTerminal terminalId w;
          (t, w2) = Date_now e w1
      in appendMessage
           \<lparr>m_role = str ''assistant'', m_content = finalResponse, m_ts = t,
            m_imageBase64 = None, m_imageDataUrl = None\<rparr> w2)"

text \<open>Lines 89 to 115, \<^verbatim>\<open>PHASE 3: THE SYNTHESIZER\<close>. A template literal that throws
  ends the \<^verbatim>\<open>try\<close> body before the call.\<close>

definition synthesizer_phase ::
  "env \<Rightarrow> hist list \<Rightarrow> jsstring \<Rightarrow> jsval \<Rightarrow> jsval \<Rightarrow> world \<Rightarrow> world \<times> (error + unit)" where
  "synthesizer_phase e history terminalId resultA resultB w =
     (let w1 = updateTerminal terminalId
                 (str ''> Workers A and B have completed execution. Synthesizing final output...'')
                 False w
      in case combinedInput e resultA resultB of
           None \<Rightarrow> (w1, Inl (Error (cannot_convert e)))
         | Some combined \<Rightarrow>
             (let (w2, r) = fetchAPIBackground e history (JStr combined) None
                              synthesizerPrompt (str ''gemma-3-27b-it'') w1
              in case r of
                   Inl err \<Rightarrow> (w2, Inl err)
                 | Inr finalResponse \<Rightarrow> (finalize e terminalId finalResponse w2, Inr ())))"

text \<open>Lines 73 to 87, \<^verbatim>\<open>PHASE 2: PARALLEL WORKERS\<close>. Both calls run up to their
  \<^verbatim>\<open>fetch\<close> before either settles: A's request is sent first, then B's.\<close>

definition workers_phase ::
  "env \<Rightarrow> hist list \<Rightarrow> jsstring \<Rightarrow> jsval \<Rightarrow> world \<Rightarrow> world \<times> (error + unit)" where
  "workers_phase e history terminalId tasks w =
     (let w1 = updateTerminal terminalId
                 (str ''> Orchestrator generated tasks. Dispatching to parallel workers...'')
                 False w;
          (w2, pA) = fetchAPIBackground e [] (get_prop tasks (str ''taskA'')) None
                       workerSystemPrompt (str ''gemma-3-27b-it'') w1;
          (w3, pB) = fetchAPIBackground e [] (get_prop tasks (str ''taskB'')) None
                       workerSystemPrompt (str ''gemma-3-27b-it'') w2
      in case Promise_all2 (b_rejects_first e w1 w2 w3) pA pB of
           Inl err \<Rightarrow> (w3, Inl err)
         | Inr (resultA, resultB) \<Rightarrow> synthesizer_phase e history terminalId resultA resultB w3)"

text \<open>Line 69: the plan passes the check.\<close>

definition plan_ok :: "env \<Rightarrow> jsval \<Rightarrow> bool" where
  "plan_ok e tasks =
     (truthy e tasks \<and> truthy e (get_prop tasks (str ''taskA''))
      \<and> truthy e (get_prop tasks (str ''taskB'')))"

text \<open>Lines 38 to 71, \<^verbatim>\<open>PHASE 1: THE ORCHESTRATOR\<close>, the entry of the \<^verbatim>\<open>try\<close> body.\<close>

definition agent_try :: "env \<Rightarrow> jsval \<Rightarrow> message \<Rightarrow> jsstring \<Rightarrow> world \<Rightarrow> world \<times> (error + unit)" where
  "agent_try e userText userMsg terminalId w =
     (let w1 = updateTerminal terminalId (str ''> Orchestrator analyzing request...'') False w;
          history = history_of w1;
          (w2, r) = fetchAPIBackground e history userText (or_null (m_imageBase64 userMsg))
                      orchestratorPrompt (str ''gemma-3-27b-it'') w1
      in case r of
           Inl err \<Rightarrow> (w2, Inl err)
         | Inr orchestratorResponse \<Rightarrow>
             (case parse_tasks orchestratorResponse of
                None \<Rightarrow>
                  (console_error w2,
                   Inl (Error (str ''Orchestrator failed to generate a valid plan.'')))
              | Some tasks \<Rightarrow>
                  if \<not> plan_ok e tasks
                  then (w2, Inl (Error (str ''Orchestrator response missing taskA or taskB.'')))
                  else workers_phase e history terminalId tasks w2))"

text \<open>Lines 126 to 130, the \<^verbatim>\<open>catch\<close> block.\<close>

definition agent_catch :: "jsstring \<Rightarrow> error \<Rightarrow> world \<Rightarrow> world" where
  "agent_catch terminalId err w =
     console_error
       (toast (str ''Agent Mode Error: '' @ error_message err) (str ''error'')
          (updateTerminal terminalId (str ''> Error: '' @ error_message err) True w))"

text \<open>The user turn built in lines 15 to 22, and the world after \<^verbatim>\<open>clearImage\<close>.\<close>

definition make_userMsg :: "env \<Rightarrow> jsval \<Rightarrow> world \<Rightarrow> message \<times> world" where
  "make_userMsg e userText w =
     (let (t, w1) = Date_now e w;
          userMsg = \<lparr>m_role = str ''user'', m_content = userText, m_ts = t,
                     m_imageBase64 = None, m_imageDataUrl = None\<rparr>
      in case pendingImage w1 of
           None \<Rightarrow> (userMsg, w1)
         | Some p \<Rightarrow>
             (userMsg\<lparr>m_imageBase64 := Some (base64 p), m_imageDataUrl := Some (dataUrl p)\<rparr>,
              clearImage w1))"

text \<open>Lines 14 to 32: everything before the \<^verbatim>\<open>try\<close>.\<close>

definition agent_setup :: "env \<Rightarrow> jsval \<Rightarrow> world \<Rightarrow> message \<times> jsstring \<times> world" where
  "agent_setup e userText w =
     (let (userMsg, w1) = make_userMsg e userText w;
          w2 = appendMessage userMsg w1;
          w3 = w2\<lparr>sendDisabled := True, isStreaming := True\<rparr>;
          (terminalId, w4) = createTerminalBubble e w3;
          w5 = updateTerminal terminalId (str ''> Initializing S.I.L.K. Agent Mode...'') False w4
      in (userMsg, terminalId, w5))"

definition runAgentMode :: "env \<Rightarrow> jsval \<Rightarrow> world \<Rightarrow> world" where
  "runAgentMode e userText w =
     (if \<not> truthy e userText then w
      else
        (let (userMsg, terminalId, w1) = agent_setup e userText w;
             (w2, r) = agent_try e userText userMsg terminalId w1;
             w3 = (case r of Inr u \<Rightarrow> w2 | Inl err \<Rightarrow> agent_catch terminalId err w2)
         in w3\<lparr>isStreaming := False, sendDisabled := False\<rparr>))"

section \<open>Observations of a run\<close>

text \<open>
  What the theorems below speak about: how the \<^verbatim>\<open>try\<close> body of a run ends, the events
  and the requests the run adds, the calls among the events, and the phase an event
  belongs to. A call is told apart by the system instruction it carries.
\<close>

definition run_result :: "env \<Rightarrow> jsval \<Rightarrow> world \<Rightarrow> error + unit" where
  "run_result e userText w =
     (let (userMsg, terminalId, w1) = agent_setup e userText w
      in snd (agent_try e userText userMsg terminalId w1))"

definition run_trace :: "env \<Rightarrow> jsval \<Rightarrow> world \<Rightarrow> event list" where
  "run_trace e userText w = drop (length (trace w)) (trace (runAgentMode e userText w))"

definition run_requests :: "env \<Rightarrow> jsval \<Rightarrow> world \<Rightarrow> request list" where
  "run_requests e userText w = drop (length (requests w)) (requests (runAgentMode e userText w))"

fun calls :: "event list \<Rightarrow> (call_args \<times> (error + jsval)) list" where
  "calls [] = []"
| "calls (ECall a r # es) = (a, r) # calls es"
| "calls (ev # es) = calls es"

datatype phase = Planning | Dispatching | Synthesizing | Finalizing

fun phase_of :: "event \<Rightarrow> phase list" where
  "phase_of (ECall a r) =
     (if c_systemPrompt a = orchestratorPrompt then [Planning]
      else if c_systemPrompt a = workerSystemPrompt then [Dispatching]
      else if c_systemPrompt a = synthesizerPrompt then [Synthesizing]
      else [])"
| "phase_of (EAppendMessage m) = (if m_role m = str ''assistant'' then [Finalizing] else [])"
| "phase_of ev = []"

definition phases :: "event list \<Rightarrow> phase list" where
  "phases tr = concat (map phase_of tr)"

text \<open>The arguments of the four calls, the turn a run begins with and the id of its bubble.\<close>

definition orchestrator_call :: "hist list \<Rightarrow> jsval \<Rightarrow> message \<Rightarrow> call_args" where
  "orchestrator_call history userText userMsg =
     \<lparr>c_history = history, c_newUserText = userText,
      c_imageBase64 = or_null (m_imageBase64 userMsg),
      c_systemPrompt = orchestratorPrompt, c_modelOverride = str ''gemma-3-27b-it''\<rparr>"

definition worker_call :: "jsval \<Rightarrow> call_args" where
  "worker_call task =
     \<lparr>c_history = [], c_newUserText = task, c_imageBase64 = None,
      c_systemPrompt = workerSystemPrompt, c_modelOverride = str ''gemma-3-27b-it''\<rparr>"

definition synthesizer_call :: "hist list \<Rightarrow> jsstring \<Rightarrow> call_args" where
  "synthesizer_call history combined =
     \<lparr>c_history = history, c_newUserText = JStr combined, c_imageBase64 = None,
      c_systemPrompt = synthesizerPrompt, c_modelOverride = str ''gemma-3-27b-it''\<rparr>"

definition user_turn :: "env \<Rightarrow> jsval \<Rightarrow> world \<Rightarrow> message" where
  "user_turn e userText w = fst (make_userMsg e userText w)"

definition bubble_id :: "env \<Rightarrow> world \<Rightarrow> jsstring" where
  "bubble_id e w = str ''term_'' @ decimal (now e (Suc (clock_reads w)))"

definition assistant_msg :: "env \<Rightarrow> nat \<Rightarrow> jsval \<Rightarrow> message" where
  "assistant_msg e k v =
     \<lparr>m_role = str ''assistant'', m_content = v, m_ts = now e k,
      m_imageBase64 = None, m_imageDataUrl = None\<rparr>"

text \<open>
  The text of the two labelled sections, in the words of the spec except for the end:
  the text of worker A's output verbatim between the two labels, and the text of worker
  B's output after the second label, without the white space it ends in.
\<close>

definition synthesis_text :: "jsstring \<Rightarrow> jsstring \<Rightarrow> jsstring" where
  "synthesis_text textA textB =
     str ''--- WORKER A OUTPUT ---'' @ [0x0A] @ textA @ [0x0A, 0x0A]
     @ str ''--- WORKER B OUTPUT ---'' @ trimEnd (0x0A # textB)"

definition danger :: jsstring where
  "danger = str ''var(--danger)''"

text \<open>A turn of a request without an image: all its parts are text.\<close>

definition text_only :: "turn \<Rightarrow> bool" where
  "text_only t = list_all (\<lambda>p. case p of Text s \<Rightarrow> True | InlineData mt d \<Rightarrow> False) (t_parts t)"

text \<open>The request a call hands to the network in a world: none without a key, and none
  when a conversion to a string throws.\<close>

definition sent :: "env \<Rightarrow> world \<Rightarrow> call_args \<Rightarrow> request list" where
  "sent e w a =
     (if LS_get w (str ''aura:apikey'') [] = [] then []
      else (case build_request e (LS_get w (str ''aura:apikey'') []) (c_history a)
                   (c_newUserText a) (c_imageBase64 a) (c_systemPrompt a) (c_modelOverride a) of
              None \<Rightarrow> []
            | Some rq \<Rightarrow> [rq]))"

text \<open>The world in which the \<^verbatim>\<open>try\<close> body of a run starts.\<close>

definition entry_world :: "env \<Rightarrow> jsval \<Rightarrow> world \<Rightarrow> world" where
  "entry_world e userText w = snd (snd (agent_setup e userText w))"

text \<open>The status lines, the bubble as it is created, and the events around the \<^verbatim>\<open>try\<close>.\<close>

definition status0 :: jsstring where
  "status0 = str ''> Initializing S.I.L.K. Agent Mode...''"

definition status1 :: jsstring where
  "status1 = str ''> Orchestrator analyzing request...''"

definition status2 :: jsstring where
  "status2 = str ''> Orchestrator generated tasks. Dispatching to parallel workers...''"

definition status3 :: jsstring where
  "status3 = str ''> Workers A and B have completed execution. Synthesizing final output...''"

definition new_bubble :: "jsstring \<Rightarrow> terminal" where
  "new_bubble i = \<lparr>el_id = i, el_text = str ''> Initializing...'', el_color = None\<rparr>"

definition setup_events :: "env \<Rightarrow> jsval \<Rightarrow> world \<Rightarrow> event list" where
  "setup_events e userText w =
     (case pendingImage w of None \<Rightarrow> [] | Some p \<Rightarrow> [EClearImage])
     @ [EAppendMessage (user_turn e userText w), ECreateTerminal (bubble_id e w), EScrollBottom,
        EUpdateTerminal (bubble_id e w) status0 False]"

definition catch_events :: "jsstring \<Rightarrow> error \<Rightarrow> event list" where
  "catch_events i err =
     [EUpdateTerminal i (str ''> Error: '' @ error_message err) True,
      EToast (str ''Agent Mode Error: '' @ error_message err) (str ''error''),
      EConsoleError]"

text \<open>The text a terminal bubble shows, as a normal status line and as an error.\<close>

definition set_text :: "jsstring \<Rightarrow> jsstring \<Rightarrow> terminal list \<Rightarrow> terminal list" where
  "set_text i txt = update_first (\<lambda>el. el_id el = i) (\<lambda>el. el\<lparr>el_text := txt\<rparr>)"

definition set_error :: "jsstring \<Rightarrow> jsstring \<Rightarrow> terminal list \<Rightarrow> terminal list" where
  "set_error i txt =
     update_first (\<lambda>el. el_id el = i)
       (\<lambda>el. el\<lparr>el_text := txt, el_color := Some (str ''var(--danger)'')\<rparr>)"

section \<open>Concrete environments\<close>

text \<open>
  An engine for which every number is truthy and prints as its literal, and a clock that
  starts at 1000. The network follows a script: the \<open>k\<close>-th \<^verbatim>\<open>fetch\<close> gets the \<open>k\<close>-th
  outcome of the script, and fails once the script is used up. \<open>world0\<close> is empty: no key
  stored, no chat turn, no terminal bubble; \<open>world1\<close> has a key.
\<close>

definition env_script :: "fetch_outcome list \<Rightarrow> env" where
  "env_script outs =
     \<lparr>number_truthy = (\<lambda>n. True), number_to_string = (\<lambda>n. n),
      cannot_convert = str ''Cannot convert object to primitive value'',
      net = (\<lambda>k req. if k < length outs then outs ! k else Rejected (str ''Failed to fetch'')),
      now = (\<lambda>k. 1000 + k), b_settles_first = False\<rparr>"

definition env0 :: env where
  "env0 = env_script []"

definition world0 :: world where
  "world0 = \<lparr>LS = Map.empty, messages = [], pendingImage = None, sendDisabled = False,
             isStreaming = False, terminals = [], requests = [], clock_reads = 0, trace = []\<rparr>"

definition world1 :: world where
  "world1 = world0\<lparr>LS := [str ''aura:apikey'' \<mapsto> str ''k'']\<rparr>"

text \<open>
  Responses: one of the API with one candidate whose first part has the given \<^verbatim>\<open>text\<close>,
  one with status 429 and a vendor-reported message, one with status 500 and no readable
  body, one that is ok with no readable body, and one that is ok with no candidate. Two
  planner replies follow, then a plan whose \<^verbatim>\<open>taskA\<close> is an object with an own property
  \<^verbatim>\<open>toString\<close>, that object, and a response with status 429 whose vendor-reported
  message is that object.
\<close>

definition reply_data :: "jsval \<Rightarrow> jsval" where
  "reply_data txt =
     JObj [(str ''candidates'',
            JArr [JObj [(str ''content'',
                         JObj [(str ''parts'', JArr [JObj [(str ''text'', txt)]])])]])]"

definition ok_response :: "jsstring \<Rightarrow> fetch_outcome" where
  "ok_response txt = Responded \<lparr>ok = True, status = 200, json = Inr (reply_data (JStr txt))\<rparr>"

definition ok_response_value :: "jsval \<Rightarrow> fetch_outcome" where
  "ok_response_value v = Responded \<lparr>ok = True, status = 200, json = Inr (reply_data v)\<rparr>"


definition server_error :: fetch_outcome where
  "server_error = Responded \<lparr>ok = False, status = 500, json = Inl (str ''Unexpected token'')\<rparr>"



definition plan_xy :: jsstring where
  \<open>plan_xy = str ''{"taskA":"x","taskB":"y"}''\<close>

definition plan_x :: jsstring where
  \<open>plan_x = str ''{"taskA":"x"}''\<close>

definition plan_object :: jsstring where
  \<open>plan_object = str ''{"taskA":{"toString":1},"taskB":"y"}''\<close>

definition unconvertible :: jsval where
  "unconvertible = JObj [(str ''toString'', JNum (str ''1''))]"


text \<open>
  The scripts: all four calls succeed (worker B's output ends in a line feed); worker A
  gets a server error; the response is ok and unreadable; the call gets a server error; the
  call gets a vendor-reported error; the vendor-reported message is the object above; the
  response is ok and has no candidate; the response is ok and has the text \<^verbatim>\<open>hello\<close>;
  the plan lacks \<^verbatim>\<open>taskB\<close>; the plan's \<^verbatim>\<open>taskA\<close> is the object above; worker A's
  output is the object above.

  \<open>world_stale\<close> is \<open>world1\<close> with an element left by a run that failed, whose id is
  the one that the next bubble gets; in \<open>world_other\<close> the element has another id.
  \<open>hi_request\<close> is the request of a call in \<open>world1\<close> with the text \<^verbatim>\<open>hi\<close>, no
  history, no image, no system instruction and no model override.
\<close>

definition env_ok :: env where
  "env_ok = env_script [ok_response plan_xy, ok_response (str ''A-out''),
                        ok_response (str ''B-out'' @ [0x0A]), ok_response (str ''final'')]"

definition env_worker_fails :: env where
  "env_worker_fails = env_script [ok_response plan_xy, server_error, ok_response (str ''B-out'')]"







definition env_bad_plan :: env where
  "env_bad_plan = env_script [ok_response plan_x]"

definition env_object_task :: env where
  "env_object_task = env_script [ok_response plan_object, ok_response (str ''B-out'')]"

definition env_object_output :: env where
  "env_object_output =
     env_script [ok_response plan_xy, ok_response_value unconvertible, ok_response (str ''B-out'')]"



definition hi :: jsval where
  "hi = JStr (str ''hi'')"


section \<open>Basic facts\<close>

lemma str_eq_Nil [simp]: "str s = [] \<longleftrightarrow> s = []"
  by (simp add: str_def)

lemma update_first_none: "find P xs = None \<Longrightarrow> update_first P f xs = xs"
  by (induction xs) (auto split: if_splits)

lemma remove_first_none: "find P xs = None \<Longrightarrow> remove_first P xs = xs"
  by (induction xs) (auto split: if_splits)

lemma updateTerminal_eq:
  "updateTerminal i txt isError w =
     w\<lparr>terminals :=
          update_first (\<lambda>el. el_id el = i)
            (\<lambda>el. el\<lparr>el_text := txt,
                      el_color := (if isError then Some (str ''var(--danger)'') else el_color el)\<rparr>)
            (terminals w),
        trace := trace w @ [EUpdateTerminal i txt isError]\<rparr>"
proof (cases "getElementById w i")
  case None
  then have "update_first (\<lambda>el. el_id el = i)
            (\<lambda>el. el\<lparr>el_text := txt,
                      el_color := (if isError then Some (str ''var(--danger)'') else el_color el)\<rparr>)
            (terminals w) = terminals w"
    by (simp add: getElementById_def update_first_none)
  with None show ?thesis
    by (simp add: updateTerminal_def)
next
  case (Some el)
  have swap: "el'\<lparr>el_color := c, el_text := txt\<rparr> = el'\<lparr>el_text := txt, el_color := c\<rparr>"
    for el' :: terminal and c
    by simp
  from Some show ?thesis
    by (simp add: updateTerminal_def swap)
qed

lemma removeTerminal_eq:
  "removeTerminal i w =
     w\<lparr>terminals := remove_first (\<lambda>el. el_id el = i) (terminals w),
        trace := trace w @ [ERemoveTerminal i]\<rparr>"
  by (cases "getElementById w i")
     (simp_all add: removeTerminal_def getElementById_def remove_first_none)

section \<open>The run, phase by phase\<close>

subsection \<open>Frames\<close>

lemma update_first_twice:
  "(\<And>x. P (g x) = P x) \<Longrightarrow> update_first P f (update_first P g xs) = update_first P (f \<circ> g) xs"
  by (induction xs) auto

lemma remove_first_update_first:
  "(\<And>x. P (g x) = P x) \<Longrightarrow> remove_first P (update_first P g xs) = remove_first P xs"
  by (induction xs) auto

lemma set_text_twice [simp]: "set_text i t (set_text i u ts) = set_text i t ts"
  by (simp add: set_text_def update_first_twice o_def)

lemma set_error_set_text [simp]: "set_error i t (set_text i u ts) = set_error i t ts"
  by (simp add: set_text_def set_error_def update_first_twice o_def)

lemma remove_first_set_text [simp]:
  "remove_first (\<lambda>el. el_id el = i) (set_text i u ts) = remove_first (\<lambda>el. el_id el = i) ts"
  by (simp add: set_text_def remove_first_update_first)

lemma fetchAPIBackground_world:
  assumes "fetchAPIBackground e h t i s m w = (w', r)"
  shows "w' = w\<lparr>requests := requests w @ sent e w \<lparr>c_history = h, c_newUserText = t, c_imageBase64 = i,
                          c_systemPrompt = s, c_modelOverride = m\<rparr>,
                trace := trace w @ [ECall \<lparr>c_history = h, c_newUserText = t, c_imageBase64 = i,
                          c_systemPrompt = s, c_modelOverride = m\<rparr> r]\<rparr>"
  using assms
  by (auto simp: fetchAPIBackground_def transport_def Let_def sent_def
      split: if_splits option.splits)

lemma updateTerminal_world:
  "updateTerminal i t False w =
     w\<lparr>terminals := set_text i t (terminals w), trace := trace w @ [EUpdateTerminal i t False]\<rparr>"
  by (simp add: updateTerminal_eq set_text_def)

lemma sent_frame [simp]:
  "sent e (w\<lparr>terminals := ts\<rparr>) a = sent e w a"
  "sent e (w\<lparr>trace := tr\<rparr>) a = sent e w a"
  "sent e (w\<lparr>requests := rq\<rparr>) a = sent e w a"
  "sent e (w\<lparr>messages := ms\<rparr>) a = sent e w a"
  "sent e (w\<lparr>clock_reads := k\<rparr>) a = sent e w a"
  "sent e (w\<lparr>pendingImage := p\<rparr>) a = sent e w a"
  "sent e (w\<lparr>sendDisabled := b\<rparr>) a = sent e w a"
  "sent e (w\<lparr>isStreaming := b\<rparr>) a = sent e w a"
  by (simp_all add: sent_def LS_get_def)

lemma history_of_frame [simp]:
  "history_of (w\<lparr>terminals := ts\<rparr>) = history_of w"
  "history_of (w\<lparr>trace := tr\<rparr>) = history_of w"
  "history_of (w\<lparr>requests := rq\<rparr>) = history_of w"
  by (simp_all add: history_of_def)

lemma history_of_appended [simp]:
  "history_of (w\<lparr>messages := ms @ [m]\<rparr>) = map hist_of_message ms"
  by (simp add: history_of_def)

lemma finalize_world:
  "finalize e tid v w =
     w\<lparr>terminals := remove_first (\<lambda>el. el_id el = tid) (terminals w),
       clock_reads := Suc (clock_reads w),
       messages := messages w @ [assistant_msg e (clock_reads w) v],
       trace := trace w @ [ERemoveTerminal tid, EAppendMessage (assistant_msg e (clock_reads w) v)]\<rparr>"
  by (simp add: finalize_def removeTerminal_eq Date_now_def appendMessage_def assistant_msg_def)

subsection \<open>The phases, case by case\<close>

lemma synthesizer_phase_cases [consumes 1, case_names combine_failed synth_failed success]:
  assumes run: "synthesizer_phase e history tid resultA resultB w = (w', r)"
  obtains
    (combine_failed)
      "combinedInput e resultA resultB = None"
      "r = Inl (Error (cannot_convert e))"
      "w' = w\<lparr>terminals := set_text tid status3 (terminals w),
              trace := trace w @
                [EUpdateTerminal tid status3 False]\<rparr>"
  | (synth_failed) combined err where
      "combinedInput e resultA resultB = Some combined"
      "r = Inl err"
      "w' = w\<lparr>terminals := set_text tid status3 (terminals w),
              requests := requests w @ sent e w (synthesizer_call history combined),
              trace := trace w @
                [EUpdateTerminal tid status3 False,
                 ECall (synthesizer_call history combined) (Inl err)]\<rparr>"
  | (success) combined finalResponse where
      "combinedInput e resultA resultB = Some combined"
      "r = Inr ()"
      "w' = w\<lparr>terminals := remove_first (\<lambda>el. el_id el = tid) (terminals w),
              requests := requests w @ sent e w (synthesizer_call history combined),
              clock_reads := Suc (clock_reads w),
              messages := messages w @ [assistant_msg e (clock_reads w) finalResponse],
              trace := trace w @
                [EUpdateTerminal tid status3 False,
                 ECall (synthesizer_call history combined) (Inr finalResponse),
                 ERemoveTerminal tid,
                 EAppendMessage (assistant_msg e (clock_reads w) finalResponse)]\<rparr>"
proof -
  let ?w1 = "updateTerminal tid status3 False w"
  show thesis
  proof (cases "combinedInput e resultA resultB")
    case None
    have "r = Inl (Error (cannot_convert e))" "w' = ?w1"
      using run None by (simp_all add: synthesizer_phase_def status3_def)
    with None show thesis
      by (intro combine_failed) (simp_all add: updateTerminal_world)
  next
    case (Some combined)
    obtain w2 r3 where f: "fetchAPIBackground e history (JStr combined) None
        synthesizerPrompt (str ''gemma-3-27b-it'') ?w1 = (w2, r3)"
      by (meson surj_pair)
    have w2: "w2 = w\<lparr>terminals := set_text tid status3 (terminals w),
                requests := requests w @ sent e w (synthesizer_call history combined),
                trace := trace w @
                  [EUpdateTerminal tid status3 False,
                   ECall (synthesizer_call history combined) r3]\<rparr>"
      using fetchAPIBackground_world [OF f]
      by (simp add: updateTerminal_world synthesizer_call_def)
    show thesis
    proof (cases r3)
      case (Inl err)
      have "r = Inl err" "w' = w2"
        using run f Inl Some by (simp_all add: synthesizer_phase_def status3_def)
      with w2 Inl Some show thesis
        by (intro synth_failed [where combined = combined and err = err]) simp_all
    next
      case (Inr v)
      have "r = Inr ()" "w' = finalize e tid v w2"
        using run f Inr Some by (simp_all add: synthesizer_phase_def status3_def)
      with w2 Inr Some show thesis
        by (intro success [where combined = combined and finalResponse = v])
           (simp_all add: finalize_world)
    qed
  qed
qed

lemma workers_phase_cases [consumes 1, case_names worker_failed combine_failed synth_failed
    success]:
  assumes run: "workers_phase e history tid tasks w = (w', r)"
  obtains
    (worker_failed) pA pB err first where
      "Promise_all2 first pA pB = Inl err"
      "r = Inl err"
      "w' = w\<lparr>terminals := set_text tid status2 (terminals w),
              requests := requests w @ sent e w (worker_call (get_prop tasks (str ''taskA'')))
                @ sent e w (worker_call (get_prop tasks (str ''taskB''))),
              trace := trace w @
                [EUpdateTerminal tid status2 False,
                 ECall (worker_call (get_prop tasks (str ''taskA''))) pA,
                 ECall (worker_call (get_prop tasks (str ''taskB''))) pB]\<rparr>"
  | (combine_failed) resultA resultB where
      "combinedInput e resultA resultB = None"
      "r = Inl (Error (cannot_convert e))"
      "w' = w\<lparr>terminals := set_text tid status3 (terminals w),
              requests := requests w @ sent e w (worker_call (get_prop tasks (str ''taskA'')))
                @ sent e w (worker_call (get_prop tasks (str ''taskB''))),
              trace := trace w @
                [EUpdateTerminal tid status2 False,
                 ECall (worker_call (get_prop tasks (str ''taskA''))) (Inr resultA),
                 ECall (worker_call (get_prop tasks (str ''taskB''))) (Inr resultB),
                 EUpdateTerminal tid status3 False]\<rparr>"
  | (synth_failed) resultA resultB combined err where
      "combinedInput e resultA resultB = Some combined"
      "r = Inl err"
      "w' = w\<lparr>terminals := set_text tid status3 (terminals w),
              requests := requests w @ sent e w (worker_call (get_prop tasks (str ''taskA'')))
                @ sent e w (worker_call (get_prop tasks (str ''taskB'')))
                @ sent e w (synthesizer_call history combined),
              trace := trace w @
                [EUpdateTerminal tid status2 False,
                 ECall (worker_call (get_prop tasks (str ''taskA''))) (Inr resultA),
                 ECall (worker_call (get_prop tasks (str ''taskB''))) (Inr resultB),
                 EUpdateTerminal tid status3 False,
                 ECall (synthesizer_call history combined) (Inl err)]\<rparr>"
  | (success) resultA resultB combined finalResponse where
      "combinedInput e resultA resultB = Some combined"
      "r = Inr ()"
      "w' = w\<lparr>terminals := remove_first (\<lambda>el. el_id el = tid) (terminals w),
              requests := requests w @ sent e w (worker_call (get_prop tasks (str ''taskA'')))
                @ sent e w (worker_call (get_prop tasks (str ''taskB'')))
                @ sent e w (synthesizer_call history combined),
              clock_reads := Suc (clock_reads w),
              messages := messages w @ [assistant_msg e (clock_reads w) finalResponse],
              trace := trace w @
                [EUpdateTerminal tid status2 False,
                 ECall (worker_call (get_prop tasks (str ''taskA''))) (Inr resultA),
                 ECall (worker_call (get_prop tasks (str ''taskB''))) (Inr resultB),
                 EUpdateTerminal tid status3 False,
                 ECall (synthesizer_call history combined) (Inr finalResponse),
                 ERemoveTerminal tid,
                 EAppendMessage (assistant_msg e (clock_reads w) finalResponse)]\<rparr>"
proof -
  let ?w1 = "updateTerminal tid status2 False w"
  obtain w2 pA where fA: "fetchAPIBackground e [] (get_prop tasks (str ''taskA'')) None
      workerSystemPrompt (str ''gemma-3-27b-it'') ?w1 = (w2, pA)"
    by (meson surj_pair)
  obtain w3 pB where fB: "fetchAPIBackground e [] (get_prop tasks (str ''taskB'')) None
      workerSystemPrompt (str ''gemma-3-27b-it'') w2 = (w3, pB)"
    by (meson surj_pair)
  have w3: "w3 = w\<lparr>terminals := set_text tid status2 (terminals w),
              requests := requests w @ sent e w (worker_call (get_prop tasks (str ''taskA'')))
                            @ sent e w (worker_call (get_prop tasks (str ''taskB''))),
              trace := trace w @
                [EUpdateTerminal tid status2 False,
                 ECall (worker_call (get_prop tasks (str ''taskA''))) pA,
                 ECall (worker_call (get_prop tasks (str ''taskB''))) pB]\<rparr>"
    using fetchAPIBackground_world [OF fA] fetchAPIBackground_world [OF fB]
    by (simp add: updateTerminal_world worker_call_def)
  let ?first = "b_rejects_first e ?w1 w2 w3"
  show thesis
  proof (cases "Promise_all2 ?first pA pB")
    case (Inl err)
    have "r = Inl err" "w' = w3"
      using run fA fB Inl by (simp_all add: workers_phase_def status2_def)
    with w3 Inl show thesis
      by (intro worker_failed [where pA = pA and pB = pB and err = err and first = ?first])
         simp_all
  next
    case (Inr ab)
    then obtain resultA resultB where ab: "pA = Inr resultA" "pB = Inr resultB"
      "Promise_all2 ?first pA pB = Inr (resultA, resultB)"
      by (cases pA; cases pB) auto
    have next_phase: "synthesizer_phase e history tid resultA resultB w3 = (w', r)"
      using run fA fB ab(3) by (simp add: workers_phase_def status2_def)
    from next_phase show thesis
    proof (cases rule: synthesizer_phase_cases)
      case combine_failed
      with w3 ab show ?thesis
        by (intro that(2) [where resultA = resultA and resultB = resultB]) simp_all
    next
      case (synth_failed combined err)
      with w3 ab show ?thesis
        by (intro that(3) [where resultA = resultA and resultB = resultB
              and combined = combined and err = err]) simp_all
    next
      case (success combined v)
      with w3 ab show ?thesis
        by (intro that(4) [where resultA = resultA and resultB = resultB
              and combined = combined and finalResponse = v]) simp_all
    qed
  qed
qed

lemma agent_try_cases [consumes 1, case_names planner_failed plan_unparsable plan_incomplete
    worker_failed combine_failed synth_failed success]:
  assumes run: "agent_try e userText userMsg tid w = (w', r)"
  obtains
    (planner_failed) err where
      "r = Inl err"
      "w' = w\<lparr>terminals := set_text tid status1 (terminals w),
              requests := requests w @ sent e w (orchestrator_call (history_of w) userText userMsg),
              trace := trace w @
                [EUpdateTerminal tid status1 False,
                 ECall (orchestrator_call (history_of w) userText userMsg) (Inl err)]\<rparr>"
  | (plan_unparsable) reply where
      "parse_tasks reply = None"
      "r = Inl (Error (str ''Orchestrator failed to generate a valid plan.''))"
      "w' = w\<lparr>terminals := set_text tid status1 (terminals w),
              requests := requests w @ sent e w (orchestrator_call (history_of w) userText userMsg),
              trace := trace w @
                [EUpdateTerminal tid status1 False,
                 ECall (orchestrator_call (history_of w) userText userMsg) (Inr reply),
                 EConsoleError]\<rparr>"
  | (plan_incomplete) reply tasks where
      "parse_tasks reply = Some tasks"
      "\<not> plan_ok e tasks"
      "r = Inl (Error (str ''Orchestrator response missing taskA or taskB.''))"
      "w' = w\<lparr>terminals := set_text tid status1 (terminals w),
              requests := requests w @ sent e w (orchestrator_call (history_of w) userText userMsg),
              trace := trace w @
                [EUpdateTerminal tid status1 False,
                 ECall (orchestrator_call (history_of w) userText userMsg) (Inr reply)]\<rparr>"
  | (worker_failed) reply tasks pA pB err first where
      "parse_tasks reply = Some tasks"
      "plan_ok e tasks"
      "Promise_all2 first pA pB = Inl err"
      "r = Inl err"
      "w' = w\<lparr>terminals := set_text tid status2 (terminals w),
              requests := requests w @ sent e w (orchestrator_call (history_of w) userText userMsg)
                @ sent e w (worker_call (get_prop tasks (str ''taskA'')))
                @ sent e w (worker_call (get_prop tasks (str ''taskB''))),
              trace := trace w @
                [EUpdateTerminal tid status1 False,
                 ECall (orchestrator_call (history_of w) userText userMsg) (Inr reply),
                 EUpdateTerminal tid status2 False,
                 ECall (worker_call (get_prop tasks (str ''taskA''))) pA,
                 ECall (worker_call (get_prop tasks (str ''taskB''))) pB]\<rparr>"
  | (combine_failed) reply tasks resultA resultB where
      "parse_tasks reply = Some tasks"
      "plan_ok e tasks"
      "combinedInput e resultA resultB = None"
      "r = Inl (Error (cannot_convert e))"
      "w' = w\<lparr>terminals := set_text tid status3 (terminals w),
              requests := requests w @ sent e w (orchestrator_call (history_of w) userText userMsg)
                @ sent e w (worker_call (get_prop tasks (str ''taskA'')))
                @ sent e w (worker_call (get_prop tasks (str ''taskB''))),
              trace := trace w @
                [EUpdateTerminal tid status1 False,
                 ECall (orchestrator_call (history_of w) userText userMsg) (Inr reply),
                 EUpdateTerminal tid status2 False,
                 ECall (worker_call (get_prop tasks (str ''taskA''))) (Inr resultA),
                 ECall (worker_call (get_prop tasks (str ''taskB''))) (Inr resultB),
                 EUpdateTerminal tid status3 False]\<rparr>"
  | (synth_failed) reply tasks resultA resultB combined err where
      "parse_tasks reply = Some tasks"
      "plan_ok e tasks"
      "combinedInput e resultA resultB = Some combined"
      "r = Inl err"
      "w' = w\<lparr>terminals := set_text tid status3 (terminals w),
              requests := requests w @ sent e w (orchestrator_call (history_of w) userText userMsg)
                @ sent e w (worker_call (get_prop tasks (str ''taskA'')))
                @ sent e w (worker_call (get_prop tasks (str ''taskB'')))
                @ sent e w (synthesizer_call (history_of w) combined),
              trace := trace w @
                [EUpdateTerminal tid status1 False,
                 ECall (orchestrator_call (history_of w) userText userMsg) (Inr reply),
                 EUpdateTerminal tid status2 False,
                 ECall (worker_call (get_prop tasks (str ''taskA''))) (Inr resultA),
                 ECall (worker_call (get_prop tasks (str ''taskB''))) (Inr resultB),
                 EUpdateTerminal tid status3 False,
                 ECall (synthesizer_call (history_of w) combined) (Inl err)]\<rparr>"
  | (success) reply tasks resultA resultB combined finalResponse where
      "parse_tasks reply = Some tasks"
      "plan_ok e tasks"
      "combinedInput e resultA resultB = Some combined"
      "r = Inr ()"
      "w' = w\<lparr>terminals := remove_first (\<lambda>el. el_id el = tid) (terminals w),
              requests := requests w @ sent e w (orchestrator_call (history_of w) userText userMsg)
                @ sent e w (worker_call (get_prop tasks (str ''taskA'')))
                @ sent e w (worker_call (get_prop tasks (str ''taskB'')))
                @ sent e w (synthesizer_call (history_of w) combined),
              clock_reads := Suc (clock_reads w),
              messages := messages w @ [assistant_msg e (clock_reads w) finalResponse],
              trace := trace w @
                [EUpdateTerminal tid status1 False,
                 ECall (orchestrator_call (history_of w) userText userMsg) (Inr reply),
                 EUpdateTerminal tid status2 False,
                 ECall (worker_call (get_prop tasks (str ''taskA''))) (Inr resultA),
                 ECall (worker_call (get_prop tasks (str ''taskB''))) (Inr resultB),
                 EUpdateTerminal tid status3 False,
                 ECall (synthesizer_call (history_of w) combined) (Inr finalResponse),
                 ERemoveTerminal tid,
                 EAppendMessage (assistant_msg e (clock_reads w) finalResponse)]\<rparr>"
proof -
  let ?w1 = "updateTerminal tid status1 False w"
  obtain w2 r1 where f: "fetchAPIBackground e (history_of w) userText
      (or_null (m_imageBase64 userMsg)) orchestratorPrompt (str ''gemma-3-27b-it'') ?w1 = (w2, r1)"
    by (meson surj_pair)
  have w2: "w2 = w\<lparr>terminals := set_text tid status1 (terminals w),
              requests := requests w @ sent e w (orchestrator_call (history_of w) userText userMsg),
              trace := trace w @
                [EUpdateTerminal tid status1 False,
                 ECall (orchestrator_call (history_of w) userText userMsg) r1]\<rparr>"
    using fetchAPIBackground_world [OF f]
    by (simp add: updateTerminal_world orchestrator_call_def)
  have h: "history_of ?w1 = history_of w"
    by (simp add: updateTerminal_world)
  note unfold = agent_try_def Let_def h [unfolded status1_def] f [unfolded status1_def]
  show thesis
  proof (cases r1)
    case (Inl err)
    have "r = Inl err" "w' = w2"
      using run Inl by (simp_all add: unfold)
    with w2 Inl show thesis by (intro planner_failed [where err = err]) simp_all
  next
    case reply: (Inr reply)
    show thesis
    proof (cases "parse_tasks reply")
      case None
      have "r = Inl (Error (str ''Orchestrator failed to generate a valid plan.''))"
        "w' = console_error w2"
        using run reply None by (simp_all add: unfold)
      with w2 reply None show thesis
        by (intro plan_unparsable [where reply = reply]) (simp_all add: console_error_def)
    next
      case tasks: (Some tasks)
      show thesis
      proof (cases "plan_ok e tasks")
        case False
        have "r = Inl (Error (str ''Orchestrator response missing taskA or taskB.''))" "w' = w2"
          using run reply tasks False by (simp_all add: unfold)
        with w2 reply tasks False show thesis
          by (intro plan_incomplete [where reply = reply and tasks = tasks]) simp_all
      next
        case True
        have next_phase: "workers_phase e (history_of w) tid tasks w2 = (w', r)"
          using run reply tasks True by (simp add: unfold)
        from next_phase show thesis
        proof (cases rule: workers_phase_cases)
          case (worker_failed pA pB err first)
          with w2 reply tasks True show ?thesis
            by (intro that(4) [where reply = reply and tasks = tasks and pA = pA and pB = pB
                  and err = err and first = first]) simp_all
        next
          case (combine_failed resultA resultB)
          with w2 reply tasks True show ?thesis
            by (intro that(5) [where reply = reply and tasks = tasks and resultA = resultA
                  and resultB = resultB]) simp_all
        next
          case (synth_failed resultA resultB combined err)
          with w2 reply tasks True show ?thesis
            by (intro that(6) [where reply = reply and tasks = tasks and resultA = resultA
                  and resultB = resultB and combined = combined and err = err]) simp_all
        next
          case (success resultA resultB combined v)
          with w2 reply tasks True show ?thesis
            by (intro that(7) [where reply = reply and tasks = tasks and resultA = resultA
                  and resultB = resultB and combined = combined and finalResponse = v]) simp_all
        qed
      qed
    qed
  qed
qed

subsection \<open>The run, case by case\<close>

lemma agent_setup_world:
  "agent_setup e userText w =
     (user_turn e userText w, bubble_id e w,
      w\<lparr>pendingImage := None, clock_reads := Suc (Suc (clock_reads w)),
        messages := messages w @ [user_turn e userText w],
        sendDisabled := True, isStreaming := True,
        terminals := set_text (bubble_id e w) status0 (terminals w @ [new_bubble (bubble_id e w)]),
        trace := trace w @ setup_events e userText w\<rparr>)"
  by (cases "pendingImage w")
     (simp_all add: agent_setup_def make_userMsg_def Date_now_def appendMessage_def
        createTerminalBubble_def scrollBottom_def updateTerminal_world clearImage_def
        user_turn_def bubble_id_def setup_events_def new_bubble_def status0_def Let_def)

lemma agent_catch_world:
  "agent_catch i err w =
     w\<lparr>terminals := set_error i (str ''> Error: '' @ error_message err) (terminals w),
       trace := trace w @ catch_events i err\<rparr>"
  by (simp add: agent_catch_def console_error_def toast_def updateTerminal_eq set_error_def
      catch_events_def)

lemma runAgentMode_unfold:
  assumes "truthy e userText"
    and "agent_try e userText (user_turn e userText w) (bubble_id e w) (entry_world e userText w)
           = (w', r)"
  shows "runAgentMode e userText w =
           (case r of Inr u \<Rightarrow> w' | Inl err \<Rightarrow> agent_catch (bubble_id e w) err w')
             \<lparr>isStreaming := False, sendDisabled := False\<rparr>"
    and "run_result e userText w = r"
  using assms
  by (simp_all add: runAgentMode_def run_result_def entry_world_def agent_setup_world)

lemma run_cases [consumes 1, case_names planner_failed plan_unparsable plan_incomplete
    worker_failed combine_failed synth_failed success]:
  assumes t: "truthy e userText"
  obtains
    (planner_failed) err where
      "run_result e userText w = Inl err"
      "run_trace e userText w =
         setup_events e userText w @
           [EUpdateTerminal (bubble_id e w) status1 False,
            ECall (orchestrator_call (map hist_of_message (messages w)) userText (user_turn e userText w)) (Inl err)]
         @ catch_events (bubble_id e w) err"
      "run_requests e userText w =
         sent e w (orchestrator_call (map hist_of_message (messages w)) userText (user_turn e userText w))"
      "messages (runAgentMode e userText w) = messages w @ [user_turn e userText w]"
      "terminals (runAgentMode e userText w) =
         set_error (bubble_id e w) (str ''> Error: '' @ error_message err)
           (terminals w @ [new_bubble (bubble_id e w)])"
  | (plan_unparsable) reply where
      "parse_tasks reply = None"
      "run_result e userText w = Inl (Error (str ''Orchestrator failed to generate a valid plan.''))"
      "run_trace e userText w =
         setup_events e userText w @
           [EUpdateTerminal (bubble_id e w) status1 False,
            ECall (orchestrator_call (map hist_of_message (messages w)) userText (user_turn e userText w)) (Inr reply),
            EConsoleError]
         @ catch_events (bubble_id e w) (Error (str ''Orchestrator failed to generate a valid plan.''))"
      "run_requests e userText w =
         sent e w (orchestrator_call (map hist_of_message (messages w)) userText (user_turn e userText w))"
      "messages (runAgentMode e userText w) = messages w @ [user_turn e userText w]"
      "terminals (runAgentMode e userText w) =
         set_error (bubble_id e w) (str ''> Error: '' @ error_message (Error (str ''Orchestrator failed to generate a valid plan.'')))
           (terminals w @ [new_bubble (bubble_id e w)])"
  | (plan_incomplete) reply tasks where
      "parse_tasks reply = Some tasks"
      "\<not> plan_ok e tasks"
      "run_result e userText w = Inl (Error (str ''Orchestrator response missing taskA or taskB.''))"
      "run_trace e userText w =
         setup_events e userText w @
           [EUpdateTerminal (bubble_id e w) status1 False,
            ECall (orchestrator_call (map hist_of_message (messages w)) userText (user_turn e userText w)) (Inr reply)]
         @ catch_events (bubble_id e w) (Error (str ''Orchestrator response missing taskA or taskB.''))"
      "run_requests e userText w =
         sent e w (orchestrator_call (map hist_of_message (messages w)) userText (user_turn e userText w))"
      "messages (runAgentMode e userText w) = messages w @ [user_turn e userText w]"
      "terminals (runAgentMode e userText w) =
         set_error (bubble_id e w) (str ''> Error: '' @ error_message (Error (str ''Orchestrator response missing taskA or taskB.'')))
           (terminals w @ [new_bubble (bubble_id e w)])"
  | (worker_failed) reply tasks pA pB err first where
      "parse_tasks reply = Some tasks"
      "plan_ok e tasks"
      "Promise_all2 first pA pB = Inl err"
      "run_result e userText w = Inl err"
      "run_trace e userText w =
         setup_events e userText w @
           [EUpdateTerminal (bubble_id e w) status1 False,
            ECall (orchestrator_call (map hist_of_message (messages w)) userText (user_turn e userText w)) (Inr reply),
            EUpdateTerminal (bubble_id e w) status2 False,
            ECall (worker_call (get_prop tasks (str ''taskA''))) pA,
            ECall (worker_call (get_prop tasks (str ''taskB''))) pB]
         @ catch_events (bubble_id e w) err"
      "run_requests e userText w =
         sent e w (orchestrator_call (map hist_of_message (messages w)) userText (user_turn e userText w))
         @ sent e w (worker_call (get_prop tasks (str ''taskA'')))
         @ sent e w (worker_call (get_prop tasks (str ''taskB'')))"
      "messages (runAgentMode e userText w) = messages w @ [user_turn e userText w]"
      "terminals (runAgentMode e userText w) =
         set_error (bubble_id e w) (str ''> Error: '' @ error_message err)
           (terminals w @ [new_bubble (bubble_id e w)])"
  | (combine_failed) reply tasks resultA resultB where
      "parse_tasks reply = Some tasks"
      "plan_ok e tasks"
      "combinedInput e resultA resultB = None"
      "run_result e userText w = Inl (Error (cannot_convert e))"
      "run_trace e userText w =
         setup_events e userText w @
           [EUpdateTerminal (bubble_id e w) status1 False,
            ECall (orchestrator_call (map hist_of_message (messages w)) userText (user_turn e userText w)) (Inr reply),
            EUpdateTerminal (bubble_id e w) status2 False,
            ECall (worker_call (get_prop tasks (str ''taskA''))) (Inr resultA),
            ECall (worker_call (get_prop tasks (str ''taskB''))) (Inr resultB),
            EUpdateTerminal (bubble_id e w) status3 False]
         @ catch_events (bubble_id e w) (Error (cannot_convert e))"
      "run_requests e userText w =
         sent e w (orchestrator_call (map hist_of_message (messages w)) userText (user_turn e userText w))
         @ sent e w (worker_call (get_prop tasks (str ''taskA'')))
         @ sent e w (worker_call (get_prop tasks (str ''taskB'')))"
      "messages (runAgentMode e userText w) = messages w @ [user_turn e userText w]"
      "terminals (runAgentMode e userText w) =
         set_error (bubble_id e w) (str ''> Error: '' @ error_message (Error (cannot_convert e)))
           (terminals w @ [new_bubble (bubble_id e w)])"
  | (synth_failed) reply tasks resultA resultB combined err where
      "parse_tasks reply = Some tasks"
      "plan_ok e tasks"
      "combinedInput e resultA resultB = Some combined"
      "run_result e userText w = Inl err"
      "run_trace e userText w =
         setup_events e userText w @
           [EUpdateTerminal (bubble_id e w) status1 False,
            ECall (orchestrator_call (map hist_of_message (messages w)) userText (user_turn e userText w)) (Inr reply),
            EUpdateTerminal (bubble_id e w) status2 False,
            ECall (worker_call (get_prop tasks (str ''taskA''))) (Inr resultA),
            ECall (worker_call (get_prop tasks (str ''taskB''))) (Inr resultB),
            EUpdateTerminal (bubble_id e w) status3 False,
            ECall (synthesizer_call (map hist_of_message (messages w)) combined) (Inl err)]
         @ catch_events (bubble_id e w) err"
      "run_requests e userText w =
         sent e w (orchestrator_call (map hist_of_message (messages w)) userText (user_turn e userText w))
         @ sent e w (worker_call (get_prop tasks (str ''taskA'')))
         @ sent e w (worker_call (get_prop tasks (str ''taskB'')))
         @ sent e w (synthesizer_call (map hist_of_message (messages w)) combined)"
      "messages (runAgentMode e userText w) = messages w @ [user_turn e userText w]"
      "terminals (runAgentMode e userText w) =
         set_error (bubble_id e w) (str ''> Error: '' @ error_message err)
           (terminals w @ [new_bubble (bubble_id e w)])"
  | (success) reply tasks resultA resultB combined finalResponse where
      "parse_tasks reply = Some tasks"
      "plan_ok e tasks"
      "combinedInput e resultA resultB = Some combined"
      "run_result e userText w = Inr ()"
      "run_trace e userText w =
         setup_events e userText w @
           [EUpdateTerminal (bubble_id e w) status1 False,
            ECall (orchestrator_call (map hist_of_message (messages w)) userText (user_turn e userText w)) (Inr reply),
            EUpdateTerminal (bubble_id e w) status2 False,
            ECall (worker_call (get_prop tasks (str ''taskA''))) (Inr resultA),
            ECall (worker_call (get_prop tasks (str ''taskB''))) (Inr resultB),
            EUpdateTerminal (bubble_id e w) status3 False,
            ECall (synthesizer_call (map hist_of_message (messages w)) combined) (Inr finalResponse),
            ERemoveTerminal (bubble_id e w),
            EAppendMessage (assistant_msg e (Suc (Suc (clock_reads w))) finalResponse)]"
      "run_requests e userText w =
         sent e w (orchestrator_call (map hist_of_message (messages w)) userText (user_turn e userText w))
         @ sent e w (worker_call (get_prop tasks (str ''taskA'')))
         @ sent e w (worker_call (get_prop tasks (str ''taskB'')))
         @ sent e w (synthesizer_call (map hist_of_message (messages w)) combined)"
      "messages (runAgentMode e userText w) =
         messages w @ [user_turn e userText w, assistant_msg e (Suc (Suc (clock_reads w))) finalResponse]"
      "terminals (runAgentMode e userText w) =
         remove_first (\<lambda>el. el_id el = bubble_id e w) (terminals w @ [new_bubble (bubble_id e w)])"
proof -
  obtain w' r where run: "agent_try e userText (user_turn e userText w) (bubble_id e w)
      (entry_world e userText w) = (w', r)"
    by (meson surj_pair)
  note u = runAgentMode_unfold [OF t run]
  note obs = run_trace_def run_requests_def u entry_world_def agent_setup_world
    agent_catch_world history_of_def
  from run show thesis
  proof (cases rule: agent_try_cases)
    case (planner_failed err)
    then show ?thesis
      by (intro that(1) [where err = err]) (simp_all add: obs)
  next
    case (plan_unparsable reply)
    then show ?thesis
      by (intro that(2) [where reply = reply]) (simp_all add: obs)
  next
    case (plan_incomplete reply tasks)
    then show ?thesis
      by (intro that(3) [where reply = reply and tasks = tasks]) (simp_all add: obs)
  next
    case (worker_failed reply tasks pA pB err first)
    then show ?thesis
      by (intro that(4) [where reply = reply and tasks = tasks and pA = pA and pB = pB and err = err and first = first]) (simp_all add: obs)
  next
    case (combine_failed reply tasks resultA resultB)
    then show ?thesis
      by (intro that(5) [where reply = reply and tasks = tasks and resultA = resultA and resultB = resultB]) (simp_all add: obs)
  next
    case (synth_failed reply tasks resultA resultB combined err)
    then show ?thesis
      by (intro that(6) [where reply = reply and tasks = tasks and resultA = resultA and resultB = resultB and combined = combined and err = err]) (simp_all add: obs)
  next
    case (success reply tasks resultA resultB combined v)
    then show ?thesis
      by (intro that(7) [where reply = reply and tasks = tasks and resultA = resultA and resultB = resultB and combined = combined and finalResponse = v]) (simp_all add: obs)
  qed
qed


section \<open>Evaluation in the concrete environments\<close>

lemma str_inj [simp]: "str a = str b \<longleftrightarrow> a = b"
  by (simp add: str_def inj_eq [OF inj_of_char] list_eq_iff_nth_eq) (metis inj_of_char inj_eq nth_map)

lemmas json_defs = cleanJson_def trim_def trimEnd_def js_ws_def JSON_parse_def lex_idle_def
  json_ws_def is_digit_def is_lower_def is_num_char_def after_token_def

lemma parse_plan_xy:
  "JSON_parse (cleanJson plan_xy)
     = Some (JObj [(str ''taskA'', JStr (str ''x'')), (str ''taskB'', JStr (str ''y''))])"
  by (simp add: plan_xy_def str_def json_defs)

lemma parse_plan_x:
  "JSON_parse (cleanJson plan_x) = Some (JObj [(str ''taskA'', JStr (str ''x''))])"
  by (simp add: plan_x_def str_def json_defs)

lemma parse_plan_object:
  "JSON_parse (cleanJson plan_object)
     = Some (JObj [(str ''taskA'', unconvertible), (str ''taskB'', JStr (str ''y''))])"
  by (simp add: plan_object_def unconvertible_def str_def json_defs finish_number_def
      valid_number_def)

lemma candidate_text_reply [simp]: "candidate_text (reply_data v) = v"
  by (simp add: candidate_text_def reply_data_def opt_prop_def)

lemmas run_defs = run_result_def run_trace_def run_requests_def runAgentMode_def agent_setup_def
  make_userMsg_def Date_now_def appendMessage_def createTerminalBubble_def scrollBottom_def
  updateTerminal_eq agent_try_def workers_phase_def synthesizer_phase_def finalize_def
  fetchAPIBackground_def transport_def LS_get_def read_response_def vendor_message_def js_or_def
  agent_catch_def console_error_def toast_def removeTerminal_eq history_of_def plan_ok_def
  env_script_def world1_def world0_def ok_response_def server_error_def hi_def Let_def
  b_rejects_first_def ok_response_value_def

lemma plan_nonempty [simp]: "plan_xy \<noteq> []" "plan_x \<noteq> []" "plan_object \<noteq> []"
  by (simp_all add: plan_xy_def plan_x_def plan_object_def str_def)

section \<open>Phases and calls of a run\<close>

lemma prompts_distinct [simp]:
  "orchestratorPrompt \<noteq> workerSystemPrompt" "workerSystemPrompt \<noteq> orchestratorPrompt"
  "orchestratorPrompt \<noteq> synthesizerPrompt" "synthesizerPrompt \<noteq> orchestratorPrompt"
  "workerSystemPrompt \<noteq> synthesizerPrompt" "synthesizerPrompt \<noteq> workerSystemPrompt"
  by (simp_all add: orchestratorPrompt_def workerSystemPrompt_def synthesizerPrompt_def)

lemma prompts_nonempty [simp]:
  "orchestratorPrompt \<noteq> []" "workerSystemPrompt \<noteq> []" "synthesizerPrompt \<noteq> []"
  by (simp_all add: orchestratorPrompt_def workerSystemPrompt_def synthesizerPrompt_def)

lemma call_prompts [simp]:
  "c_systemPrompt (orchestrator_call h t m) = orchestratorPrompt"
  "c_systemPrompt (worker_call task) = workerSystemPrompt"
  "c_systemPrompt (synthesizer_call h c) = synthesizerPrompt"
  by (simp_all add: orchestrator_call_def worker_call_def synthesizer_call_def)

lemma phases_append [simp]: "phases (xs @ ys) = phases xs @ phases ys"
  by (simp add: phases_def)

lemma phases_Cons [simp]: "phases (ev # evs) = phase_of ev @ phases evs"
  by (simp add: phases_def)

lemma phases_Nil [simp]: "phases [] = []"
  by (simp add: phases_def)

lemma calls_append [simp]: "calls (xs @ ys) = calls xs @ calls ys"
  by (induction xs rule: calls.induct) simp_all

lemma user_turn_role [simp]: "m_role (user_turn e userText w) = str ''user''"
  by (cases "pendingImage w") (simp_all add: user_turn_def make_userMsg_def Date_now_def)

lemma setup_events_quiet [simp]:
  "phases (setup_events e userText w) = []" "calls (setup_events e userText w) = []"
  "ECall a r \<notin> set (setup_events e userText w)"
  by (cases "pendingImage w"; simp add: setup_events_def)+

lemma catch_events_quiet [simp]:
  "phases (catch_events i err) = []" "calls (catch_events i err) = []"
  "ECall a r \<notin> set (catch_events i err)"
  by (simp_all add: catch_events_def)

lemma assistant_msg_role [simp]: "m_role (assistant_msg e k v) = str ''assistant''"
  by (simp add: assistant_msg_def)

text \<open>
  C1. In every run that passes the guard, the calls and the final append occur in the order
  planning, dispatching (the two worker calls), synthesis, finalization: the phases of the
  events of the run are this sequence, whole or cut after the planning call, after the two
  worker calls or after the synthesizer call. A phase that fails is the last one: if the
  planner call fails no worker call is made, if a worker call fails (either one, whatever
  the other one does and whichever settles first) no synthesizer call is made and no
  answer is appended, if the synthesizer call fails no answer is appended. The answer is
  appended exactly when the \<^verbatim>\<open>try\<close> body ends without an error.

  No phase is skipped: a planner call that returns a plan which passes the check is
  followed by the two worker calls; two worker calls that return outputs which convert to
  strings are followed by the synthesizer call; a synthesizer call that returns is followed
  by the append of the answer, and the \<^verbatim>\<open>try\<close> body ends without an error.
\<close>

theorem C1_phases_in_order:
  assumes "truthy e userText"
  shows "phases (run_trace e userText w) \<in>
           {[Planning], [Planning, Dispatching, Dispatching],
            [Planning, Dispatching, Dispatching, Synthesizing],
            [Planning, Dispatching, Dispatching, Synthesizing, Finalizing]}
         \<and> (\<forall>a err. ECall a (Inl err) \<in> set (run_trace e userText w) \<longrightarrow>
               Finalizing \<notin> set (phases (run_trace e userText w))
               \<and> (c_systemPrompt a = orchestratorPrompt \<longrightarrow>
                    phases (run_trace e userText w) = [Planning])
               \<and> (c_systemPrompt a = workerSystemPrompt \<longrightarrow>
                    phases (run_trace e userText w) = [Planning, Dispatching, Dispatching])
               \<and> (c_systemPrompt a = synthesizerPrompt \<longrightarrow>
                    phases (run_trace e userText w)
                      = [Planning, Dispatching, Dispatching, Synthesizing]))
         \<and> (Finalizing \<in> set (phases (run_trace e userText w))
              \<longleftrightarrow> run_result e userText w = Inr ())
         \<and> (\<forall>a reply tasks.
               ECall a (Inr reply) \<in> set (run_trace e userText w)
               \<and> c_systemPrompt a = orchestratorPrompt
               \<and> parse_tasks reply = Some tasks \<and> plan_ok e tasks \<longrightarrow>
               take 3 (phases (run_trace e userText w)) = [Planning, Dispatching, Dispatching])
         \<and> (\<forall>p a b resultA resultB rest.
               calls (run_trace e userText w) = p # (a, Inr resultA) # (b, Inr resultB) # rest
               \<and> to_string e resultA \<noteq> None \<and> to_string e resultB \<noteq> None \<longrightarrow>
               take 4 (phases (run_trace e userText w))
                 = [Planning, Dispatching, Dispatching, Synthesizing])
         \<and> (\<forall>a v. ECall a (Inr v) \<in> set (run_trace e userText w)
               \<and> c_systemPrompt a = synthesizerPrompt \<longrightarrow>
               phases (run_trace e userText w)
                 = [Planning, Dispatching, Dispatching, Synthesizing, Finalizing]
               \<and> run_result e userText w = Inr ())"
  using assms
proof (cases rule: run_cases [where w = w])
  case (planner_failed err)
  then show ?thesis by auto
next
  case (plan_unparsable reply)
  then show ?thesis by auto
next
  case (plan_incomplete reply tasks)
  then show ?thesis by auto
next
  case (worker_failed reply tasks pA pB err first)
  then show ?thesis by auto
next
  case (combine_failed reply tasks resultA resultB)
  then show ?thesis by (auto simp: combinedInput_def split: option.splits)
next
  case (synth_failed reply tasks resultA resultB combined err)
  then show ?thesis by auto
next
  case (success reply tasks resultA resultB combined finalResponse)
  then show ?thesis by auto
qed

section \<open>The input of the synthesizer\<close>

lemma set_calls: "(a, r) \<in> set (calls tr) \<longleftrightarrow> ECall a r \<in> set tr"
  by (induction tr rule: calls.induct) auto

subsection \<open>trim\<close>

lemma trimEnd_append_nonws:
  assumes "xs \<noteq> []" "\<not> js_ws (last xs)"
  shows "trimEnd (xs @ ys) = xs @ trimEnd ys"
proof -
  have "dropWhile js_ws (rev xs) = rev xs"
    using assms by (cases xs rule: rev_cases) simp_all
  then show ?thesis
    by (simp add: trimEnd_def dropWhile_append)
qed

lemma trimEnd_append_ws:
  assumes "list_all js_ws zs"
  shows "trimEnd (ys @ zs) = trimEnd ys"
  using assms by (simp add: trimEnd_def dropWhile_append list_all_iff)

lemma trim_template:
  "trim ([0x0A] @ str ''--- WORKER A OUTPUT ---'' @ [0x0A] @ a @ [0x0A, 0x0A]
         @ str ''--- WORKER B OUTPUT ---'' @ [0x0A] @ b @ [0x0A] @ str ''    '')
     = synthesis_text a b"
proof -
  let ?head = "str ''--- WORKER A OUTPUT ---'' @ [0x0A] @ a @ [0x0A, 0x0A]
     @ str ''--- WORKER B OUTPUT ---''"
  have head: "?head \<noteq> []" "\<not> js_ws (last ?head)" "\<not> js_ws (hd ?head)"
    by (simp_all add: str_def js_ws_def)
  have "trim ([0x0A] @ str ''--- WORKER A OUTPUT ---'' @ [0x0A] @ a @ [0x0A, 0x0A]
         @ str ''--- WORKER B OUTPUT ---'' @ [0x0A] @ b @ [0x0A] @ str ''    '')
          = trim (0x0A # ?head @ (0x0A # b) @ (0x0A # str ''    ''))"
    by simp
  also have "\<dots> = trimEnd (?head @ (0x0A # b) @ (0x0A # str ''    ''))"
    using head(3) by (simp add: trim_def js_ws_def str_def)
  also have "\<dots> = ?head @ trimEnd ((0x0A # b) @ (0x0A # str ''    ''))"
    by (rule trimEnd_append_nonws [OF head(1,2)])
  also have "trimEnd ((0x0A # b) @ (0x0A # str ''    '')) = trimEnd (0x0A # b)"
    by (rule trimEnd_append_ws) (simp add: js_ws_def str_def)
  finally show ?thesis by (simp add: synthesis_text_def)
qed

lemma combinedInput_eq:
  "combinedInput e resultA resultB =
     (case to_string e resultA of
        None \<Rightarrow> None
      | Some a \<Rightarrow> map_option (synthesis_text a) (to_string e resultB))"
  unfolding combinedInput_def trim_template by (simp split: option.splits)

lemma combinedInput_Some:
  "combinedInput e resultA resultB = Some c \<longleftrightarrow>
     (\<exists>a b. to_string e resultA = Some a \<and> to_string e resultB = Some b
            \<and> c = synthesis_text a b)"
  by (auto simp: combinedInput_eq split: option.splits)

lemma combinedInput_None:
  "combinedInput e resultA resultB = None \<longleftrightarrow>
     to_string e resultA = None \<or> to_string e resultB = None"
  by (auto simp: combinedInput_eq split: option.splits)

lemma truthy_hi [simp]: "truthy e hi"
  by (simp add: hi_def)

lemma synthesis_text_nonempty [simp]: "synthesis_text a b \<noteq> []"
  by (simp add: synthesis_text_def)

lemma personaPrefix_text_only [simp]: "list_all text_only (personaPrefix s)"
  by (simp add: personaPrefix_def text_only_def)

lemma formattedHistory_text_only:
  "formattedHistory e h = Some turns \<Longrightarrow> list_all text_only turns"
proof (induction h arbitrary: turns)
  case Nil
  then show ?case by (simp add: formattedHistory_def)
next
  case (Cons m h)
  then show ?case
    by (auto simp: formattedHistory_def text_only_def split: option.splits)
qed

lemma formattedHistory_Nil [simp]: "formattedHistory e [] = Some []"
  by (simp add: formattedHistory_def)

lemma sent_worker_call:
  assumes "truthy e task" "to_string e task = Some s" "rq \<in> set (sent e w (worker_call task))"
  shows "contents (body rq) =
           personaPrefix workerSystemPrompt @ [\<lparr>t_role = str ''user'', t_parts = [Text s]\<rparr>]"
  using assms
  by (auto simp: sent_def worker_call_def build_request_def image_parts_def js_or_def
      split: if_splits)

lemma sent_worker_call_none:
  assumes "truthy e task" "to_string e task = None"
  shows "sent e w (worker_call task) = []"
  using assms by (simp add: sent_def worker_call_def build_request_def js_or_def)

lemma sent_no_image:
  assumes "c_imageBase64 a = None" "rq \<in> set (sent e w a)"
  shows "list_all text_only (contents (body rq))"
  using assms
  by (auto simp: sent_def build_request_def image_parts_def text_only_def
      formattedHistory_text_only split: if_splits option.splits)

lemma sent_synthesizer_call:
  assumes "rq \<in> set (sent e w (synthesizer_call h txt))" "txt \<noteq> []"
  shows "last (contents (body rq)) = \<lparr>t_role = str ''user'', t_parts = [Text txt]\<rparr>"
  using assms
  by (auto simp: sent_def synthesizer_call_def build_request_def image_parts_def js_or_def
      split: if_splits option.splits)

lemma sent_synthesis_text:
  assumes "rq \<in> set (sent e w (synthesizer_call h (synthesis_text a b)))"
  shows "last (contents (body rq))
           = \<lparr>t_role = str ''user'', t_parts = [Text (synthesis_text a b)]\<rparr>"
  using assms by (rule sent_synthesizer_call) simp

lemma worker_call_fields [simp]:
  "c_history (worker_call t) = []" "c_imageBase64 (worker_call t) = None"
  "c_newUserText (worker_call t) = t"
  "c_imageBase64 (synthesizer_call h c) = None" "c_newUserText (synthesizer_call h c) = JStr c"
  by (simp_all add: worker_call_def synthesizer_call_def)

text \<open>
  C3. The planner call has returned a reply. If the reply does not parse as JSON (after the
  fence markers are removed), or the parsed value lacks \<^verbatim>\<open>taskA\<close> or \<^verbatim>\<open>taskB\<close>, or one of
  the two is the empty string, then the run fails with one of the two planning errors, the
  planner call is the only call of the run, and its request the only request.
\<close>

theorem C3_invalid_plan:
  assumes "truthy e userText"
    and "ECall a (Inr reply) \<in> set (run_trace e userText w)"
    and "c_systemPrompt a = orchestratorPrompt"
    and "parse_tasks reply = None
         \<or> (\<exists>tasks. parse_tasks reply = Some tasks
              \<and> (get_prop tasks (str ''taskA'') \<in> {JUndefined, JStr []}
                  \<or> get_prop tasks (str ''taskB'') \<in> {JUndefined, JStr []}))"
  shows "run_result e userText w \<in>
           {Inl (Error (str ''Orchestrator failed to generate a valid plan.'')),
            Inl (Error (str ''Orchestrator response missing taskA or taskB.''))}
         \<and> calls (run_trace e userText w) = [(a, Inr reply)]
         \<and> run_requests e userText w = sent e w a"
  using assms(1)
proof (cases rule: run_cases [where w = w])
  case (planner_failed err)
  with assms show ?thesis by auto
next
  case (plan_unparsable reply')
  with assms show ?thesis by auto
next
  case (plan_incomplete reply' tasks)
  with assms show ?thesis by auto
next
  case (worker_failed reply' tasks pA pB err first)
  with assms show ?thesis by (auto simp: plan_ok_def)
next
  case (combine_failed reply' tasks resultA resultB)
  with assms show ?thesis by (auto simp: plan_ok_def)
next
  case (synth_failed reply' tasks resultA resultB combined err)
  with assms show ?thesis by (auto simp: plan_ok_def)
next
  case (success reply' tasks resultA resultB combined finalResponse)
  with assms show ?thesis by (auto simp: plan_ok_def)
qed

lemma sent_text_only [simp]:
  "rq \<in> set (sent e w (worker_call t)) \<Longrightarrow> list_all text_only (contents (body rq))"
  "rq \<in> set (sent e w (synthesizer_call h c)) \<Longrightarrow> list_all text_only (contents (body rq))"
  by (rule sent_no_image; simp)+

subsection \<open>The order in which the workers settle\<close>

lemma truthy_order [simp]: "truthy (e\<lparr>b_settles_first := b\<rparr>) v = truthy e v"
  by (cases v) simp_all

lemma to_string_order [simp]: "to_string (e\<lparr>b_settles_first := b\<rparr>) v = to_string e v"
proof (induction v)
  case (JArr xs)
  have "map (\<lambda>v. if v = JUndefined \<or> v = JNull then Some []
                 else to_string (e\<lparr>b_settles_first := b\<rparr>) v) xs
        = map (\<lambda>v. if v = JUndefined \<or> v = JNull then Some [] else to_string e v) xs"
    by (rule map_cong) (simp_all add: JArr cong: if_cong)
  then show ?case by (simp only: to_string.simps)
qed simp_all

lemma formattedHistory_order [simp]:
  "formattedHistory (e\<lparr>b_settles_first := b\<rparr>) h = formattedHistory e h"
  by (simp add: formattedHistory_def js_or_def)

lemma build_request_order [simp]:
  "build_request (e\<lparr>b_settles_first := b\<rparr>) k h t i s m = build_request e k h t i s m"
  by (simp add: build_request_def js_or_def split: option.splits)

lemma read_response_order [simp]:
  "read_response (e\<lparr>b_settles_first := b\<rparr>) res = read_response e res"
  by (simp add: read_response_def js_or_def split: sum.splits option.splits)

lemma fetchAPIBackground_order [simp]:
  "fetchAPIBackground (e\<lparr>b_settles_first := b\<rparr>) h t i s m w = fetchAPIBackground e h t i s m w"
  by (simp add: fetchAPIBackground_def transport_def Let_def
      split: fetch_outcome.splits option.splits)

lemma combinedInput_order [simp]:
  "combinedInput (e\<lparr>b_settles_first := b\<rparr>) x y = combinedInput e x y"
  by (simp add: combinedInput_def split: option.splits)

lemma plan_ok_order [simp]: "plan_ok (e\<lparr>b_settles_first := b\<rparr>) tasks = plan_ok e tasks"
  by (simp add: plan_ok_def)

lemma synthesizer_phase_order [simp]:
  "synthesizer_phase (e\<lparr>b_settles_first := b\<rparr>) h tid x y w = synthesizer_phase e h tid x y w"
  by (simp add: synthesizer_phase_def finalize_def Date_now_def Let_def split: option.splits)

lemma Promise_all2_order:
  "(\<exists>v. Promise_all2 b pA pB = Inr v \<and> Promise_all2 b' pA pB = Inr v)
   \<or> (\<exists>err err'. Promise_all2 b pA pB = Inl err \<and> Promise_all2 b' pA pB = Inl err')"
  by (cases pA; cases pB) simp_all

lemma workers_phase_order:
  "fst (workers_phase (e\<lparr>b_settles_first := b\<rparr>) h tid tasks w) = fst (workers_phase e h tid tasks w)
   \<and> isl (snd (workers_phase (e\<lparr>b_settles_first := b\<rparr>) h tid tasks w))
       = isl (snd (workers_phase e h tid tasks w))"
proof -
  let ?w1 = "updateTerminal tid
        (str ''> Orchestrator generated tasks. Dispatching to parallel workers...'') False w"
  obtain w2 pA where fA: "fetchAPIBackground e [] (get_prop tasks (str ''taskA'')) None
      workerSystemPrompt (str ''gemma-3-27b-it'') ?w1 = (w2, pA)"
    by (meson surj_pair)
  obtain w3 pB where fB: "fetchAPIBackground e [] (get_prop tasks (str ''taskB'')) None
      workerSystemPrompt (str ''gemma-3-27b-it'') w2 = (w3, pB)"
    by (meson surj_pair)
  from Promise_all2_order [where b = "b_rejects_first (e\<lparr>b_settles_first := b\<rparr>) ?w1 w2 w3"
      and pA = pA and pB = pB and b' = "b_rejects_first e ?w1 w2 w3"]
  show ?thesis
    by (auto simp: workers_phase_def fA fB)
qed

lemma agent_try_order:
  "fst (agent_try (e\<lparr>b_settles_first := b\<rparr>) userText userMsg tid w)
     = fst (agent_try e userText userMsg tid w)
   \<and> isl (snd (agent_try (e\<lparr>b_settles_first := b\<rparr>) userText userMsg tid w))
       = isl (snd (agent_try e userText userMsg tid w))"
  using workers_phase_order [where e = e and b = b]
  by (simp add: agent_try_def Let_def split: prod.splits sum.splits option.splits)

lemma agent_setup_order [simp]:
  "agent_setup (e\<lparr>b_settles_first := b\<rparr>) userText w = agent_setup e userText w"
  by (simp add: agent_setup_def make_userMsg_def createTerminalBubble_def Date_now_def)

lemma agent_try_trace_grows:
  assumes "agent_try e userText userMsg tid w = (w', r)"
  shows "length (trace w) \<le> length (trace w')"
  using assms by (cases rule: agent_try_cases) simp_all

lemma calls_order:
  "calls (run_trace (e\<lparr>b_settles_first := b\<rparr>) userText w) = calls (run_trace e userText w)"
proof (cases "truthy e userText")
  case False
  then show ?thesis by (simp add: run_trace_def runAgentMode_def)
next
  case True
  let ?e' = "e\<lparr>b_settles_first := b\<rparr>"
  obtain w2 r where r: "agent_try e userText (user_turn e userText w) (bubble_id e w)
      (entry_world e userText w) = (w2, r)"
    by (meson surj_pair)
  obtain w2' r' where r': "agent_try ?e' userText (user_turn e userText w) (bubble_id e w)
      (entry_world e userText w) = (w2', r')"
    by (meson surj_pair)
  from agent_try_order [where e = e and b = b and userText = userText
      and userMsg = "user_turn e userText w" and tid = "bubble_id e w"
      and w = "entry_world e userText w"] r r'
  have same: "w2' = w2" "isl r' = isl r" by simp_all
  have same_setup: "user_turn ?e' userText w = user_turn e userText w"
    "bubble_id ?e' w = bubble_id e w" "entry_world ?e' userText w = entry_world e userText w"
    by (simp_all add: user_turn_def bubble_id_def entry_world_def make_userMsg_def Date_now_def)
  have grows: "length (trace w) \<le> length (trace w2)"
    using agent_try_trace_grows [OF r] by (simp add: entry_world_def agent_setup_world)
  have t': "truthy ?e' userText" using True by simp
  have "calls (run_trace e userText w) = calls (drop (length (trace w)) (trace w2))"
    using grows
    by (cases r) (simp_all add: run_trace_def runAgentMode_unfold(1) [OF True r] agent_catch_world)
  moreover have "calls (run_trace ?e' userText w) = calls (drop (length (trace w)) (trace w2))"
    using grows r' [unfolded same]
      runAgentMode_unfold(1) [OF t', of w w2 r'] same_setup
    by (cases r') (simp_all add: run_trace_def agent_catch_world)
  ultimately show ?thesis by simp
qed

text \<open>
  C4, as amended. Both worker calls have returned, with outputs \<open>resultA\<close> and \<open>resultB\<close>.
  If both outputs convert to strings, \<open>textA\<close> and \<open>textB\<close> (a string converts to itself),
  then the next and last call is the synthesizer call, and its current-turn text, also in
  the request sent, consists of the label of section A, \<open>textA\<close> verbatim, the label of
  section B and \<open>textB\<close> without its trailing white space, in this order. If one of the
  outputs does not convert to a string (an object with an own property \<^verbatim>\<open>toString\<close>),
  the template literal throws: no synthesizer call is made, and the \<^verbatim>\<open>try\<close> body ends
  with the \<^verbatim>\<open>TypeError\<close>. Which worker call settles first changes neither the text nor
  any call of the run.
\<close>

theorem C4_synthesis_input:
  assumes "truthy e userText"
    and "calls (run_trace e userText w) = p # (a, Inr resultA) # (b, Inr resultB) # rest"
  shows "(\<forall>textA textB.
            to_string e resultA = Some textA \<and> to_string e resultB = Some textB \<longrightarrow>
            map fst rest
              = [synthesizer_call (map hist_of_message (messages w)) (synthesis_text textA textB)]
            \<and> (\<forall>rq \<in> set (sent e w (fst (hd rest))).
                  last (contents (body rq))
                    = \<lparr>t_role = str ''user'', t_parts = [Text (synthesis_text textA textB)]\<rparr>))
         \<and> (to_string e resultA = None \<or> to_string e resultB = None \<longrightarrow>
              rest = [] \<and> run_result e userText w = Inl (Error (cannot_convert e)))
         \<and> combinedInput (e\<lparr>b_settles_first := first\<rparr>) resultA resultB
             = combinedInput e resultA resultB
         \<and> calls (run_trace (e\<lparr>b_settles_first := first\<rparr>) userText w)
             = calls (run_trace e userText w)"
proof -
  note order = calls_order [where e = e and b = first and userText = userText and w = w]
  from assms(1) show ?thesis
  proof (cases rule: run_cases [where w = w])
    case (planner_failed err)
    with assms show ?thesis by auto
  next
    case (plan_unparsable reply')
    with assms show ?thesis by auto
  next
    case (plan_incomplete reply' tasks)
    with assms show ?thesis by auto
  next
    case (worker_failed reply' tasks pA pB err first)
    with assms show ?thesis by auto
  next
    case (combine_failed reply' tasks resultA' resultB')
    with assms order show ?thesis by (auto simp: combinedInput_None)
  next
    case (synth_failed reply' tasks resultA' resultB' combined err)
    with assms order show ?thesis by (auto simp: combinedInput_Some sent_synthesis_text)
  next
    case (success reply' tasks resultA' resultB' combined finalResponse)
    with assms order show ?thesis by (auto simp: combinedInput_Some sent_synthesis_text)
  qed
qed

text \<open>
  C5. Every call of a run with the worker instruction has an empty history and no image.
  If its task converts to a string, the request it sends holds the two turns of the
  instruction and one user turn whose only part is the text of the task; if the task does
  not convert to a string, the call sends no request. When the planner reply parses to a
  plan, the worker calls of the run, if any, are the call for its \<^verbatim>\<open>taskA\<close> and the call
  for its \<^verbatim>\<open>taskB\<close>. No call other than the planner call has an image, and all parts of its
  request are text. The requests of the run are those of its calls.
\<close>

theorem C5_context_isolation:
  assumes "truthy e userText"
  shows "(\<forall>c \<in> set (calls (run_trace e userText w)).
            (c_systemPrompt (fst c) = workerSystemPrompt \<longrightarrow>
               c_history (fst c) = [] \<and> c_imageBase64 (fst c) = None
               \<and> (\<forall>task. to_string e (c_newUserText (fst c)) = Some task \<longrightarrow>
                     (\<forall>rq \<in> set (sent e w (fst c)).
                        contents (body rq) =
                          personaPrefix workerSystemPrompt
                          @ [\<lparr>t_role = str ''user'', t_parts = [Text task]\<rparr>]))
               \<and> (to_string e (c_newUserText (fst c)) = None \<longrightarrow> sent e w (fst c) = []))
            \<and> (c_systemPrompt (fst c) \<noteq> orchestratorPrompt \<longrightarrow>
                 c_imageBase64 (fst c) = None
                 \<and> (\<forall>rq \<in> set (sent e w (fst c)). list_all text_only (contents (body rq)))))
         \<and> (\<forall>reply tasks. snd (hd (calls (run_trace e userText w))) = Inr reply
               \<and> parse_tasks reply = Some tasks \<longrightarrow>
               filter (\<lambda>a. c_systemPrompt a = workerSystemPrompt)
                 (map fst (calls (run_trace e userText w)))
               \<in> {[], [worker_call (get_prop tasks (str ''taskA'')),
                        worker_call (get_prop tasks (str ''taskB''))]})
         \<and> run_requests e userText w
             = concat (map (\<lambda>c. sent e w (fst c)) (calls (run_trace e userText w)))"
  using assms
proof (cases rule: run_cases [where w = w])
  case (planner_failed err)
  then show ?thesis by simp
next
  case (plan_unparsable reply')
  then show ?thesis by simp
next
  case (plan_incomplete reply' tasks)
  then show ?thesis by simp
next
  case (worker_failed reply' tasks pA pB err first)
  then show ?thesis
    by (auto simp: plan_ok_def sent_worker_call_none intro: sent_worker_call)
next
  case (combine_failed reply' tasks resultA' resultB')
  then show ?thesis
    by (auto simp: plan_ok_def sent_worker_call_none intro: sent_worker_call)
next
  case (synth_failed reply' tasks resultA' resultB' combined err)
  then show ?thesis
    by (auto simp: plan_ok_def sent_worker_call_none intro: sent_worker_call)
next
  case (success reply' tasks resultA' resultB' combined finalResponse)
  then show ?thesis
    by (auto simp: plan_ok_def sent_worker_call_none intro: sent_worker_call)
qed

section \<open>The end of a run\<close>

subsection \<open>The bubble in the document\<close>









lemma setup_events_bubble [simp]:
  "ECreateTerminal (bubble_id e w) \<in> set (setup_events e userText w)"
  by (simp add: setup_events_def)





section \<open>The concrete runs\<close>

lemma decimal_500: "decimal 500 = str ''500''"
  by (simp add: decimal.simps str_def)


lemma build_request_case:
  "(case build_request e k h t i sp m of None \<Rightarrow> a | Some rq \<Rightarrow> f rq)
     = (if to_string e (js_or e t (JStr [])) = None \<or> formattedHistory e h = None then a
        else f (the (build_request e k h t i sp m)))"
  by (simp add: build_request_def Let_def split: option.splits)

lemma to_string_unconvertible [simp]: "to_string e unconvertible = None"
  by (simp add: unconvertible_def)

lemma to_string_hi [simp]: "to_string e hi = Some (str ''hi'')"
  by (simp add: hi_def)

lemma truthy_unconvertible [simp]: "truthy e unconvertible"
  by (simp add: unconvertible_def)

lemmas run_eval = run_defs build_request_case combinedInput_eq opt_prop_def


lemma run_worker_fails_calls:
  "calls (run_trace env_worker_fails hi world1) =
     [(orchestrator_call [] hi (user_turn env_worker_fails hi world1), Inr (JStr plan_xy)),
      (worker_call (JStr (str ''x'')), Inl (Error (str ''HTTP 500''))),
      (worker_call (JStr (str ''y'')), Inr (JStr (str ''B-out'')))]"
  by (simp add: run_eval env_worker_fails_def parse_plan_xy
        orchestrator_call_def worker_call_def user_turn_def or_null_def decimal_500)
     (simp add: str_def)

lemma run_ok_result: "run_result env_ok hi world1 = Inr ()"
  by (simp add: run_eval env_ok_def parse_plan_xy)

lemma run_ok_calls:
  "calls (run_trace env_ok hi world1) =
     [(orchestrator_call [] hi (user_turn env_ok hi world1), Inr (JStr plan_xy)),
      (worker_call (JStr (str ''x'')), Inr (JStr (str ''A-out''))),
      (worker_call (JStr (str ''y'')), Inr (JStr (str ''B-out'' @ [0x0A]))),
      (synthesizer_call [] (synthesis_text (str ''A-out'') (str ''B-out'' @ [0x0A])),
       Inr (JStr (str ''final'')))]"
  by (simp add: run_eval env_ok_def parse_plan_xy
     orchestrator_call_def worker_call_def synthesizer_call_def user_turn_def or_null_def)

lemma run_bad_plan_calls:
  "calls (run_trace env_bad_plan hi world1) =
     [(orchestrator_call [] hi (user_turn env_bad_plan hi world1), Inr (JStr plan_x))]"
  by (simp add: run_eval env_bad_plan_def parse_plan_x
     orchestrator_call_def user_turn_def or_null_def)

lemma run_object_task_calls:
  "calls (run_trace env_object_task hi world1) =
     [(orchestrator_call [] hi (user_turn env_object_task hi world1), Inr (JStr plan_object)),
      (worker_call unconvertible,
       Inl (Error (str ''Cannot convert object to primitive value''))),
      (worker_call (JStr (str ''y'')), Inr (JStr (str ''B-out'')))]"
  by (simp add: run_eval env_object_task_def parse_plan_object
     orchestrator_call_def worker_call_def user_turn_def or_null_def)

lemma run_object_output_calls:
  "calls (run_trace env_object_output hi world1) =
     [(orchestrator_call [] hi (user_turn env_object_output hi world1), Inr (JStr plan_xy)),
      (worker_call (JStr (str ''x'')), Inr unconvertible),
      (worker_call (JStr (str ''y'')), Inr (JStr (str ''B-out'')))]"
  by (simp add: run_eval env_object_output_def parse_plan_xy
     orchestrator_call_def worker_call_def user_turn_def or_null_def)

lemma run_object_output_result:
  "run_result env_object_output hi world1
     = Inl (Error (str ''Cannot convert object to primitive value''))"
  by (simp add: run_eval env_object_output_def parse_plan_xy)

lemma synthesis_text_ok:
  "synthesis_text (str ''A-out'') (str ''B-out'' @ [0x0A])
     = str ''--- WORKER A OUTPUT ---'' @ [0x0A] @ str ''A-out'' @ [0x0A, 0x0A]
       @ str ''--- WORKER B OUTPUT ---'' @ [0x0A] @ str ''B-out''"
  by (simp add: synthesis_text_def trimEnd_def js_ws_def str_def)

lemma world1_key: "LS world1 (str ''aura:apikey'') = Some (str ''k'')"
  by (simp add: world1_def world0_def)



lemma messages_world1: "messages world1 = []"
  by (simp add: world1_def world0_def)

lemma length_sent_world1:
  "length (sent e world1 a)
     = (if to_string e (js_or e (c_newUserText a) (JStr [])) = None
           \<or> formattedHistory e (c_history a) = None then 0 else 1)"
  by (simp add: sent_def LS_get_def world1_key build_request_case)



lemma cannot_convert_script [simp]:
  "cannot_convert (env_script outs) = str ''Cannot convert object to primitive value''"
  by (simp add: env_script_def)




text \<open>
  The run in which all four calls succeed: the planner call returns a plan that passes the
  check, the outputs of the two workers are strings, and the synthesizer call returns. The
  run in which worker A's call gets a server error stops after the two worker calls.
\<close>

theorem C1_phases_in_order_witness:
  "truthy env_ok hi
   \<and> calls (run_trace env_ok hi world1) =
       (orchestrator_call [] hi (user_turn env_ok hi world1), Inr (JStr plan_xy))
       # (worker_call (JStr (str ''x'')), Inr (JStr (str ''A-out'')))
       # (worker_call (JStr (str ''y'')), Inr (JStr (str ''B-out'' @ [0x0A])))
       # [(synthesizer_call [] (synthesis_text (str ''A-out'') (str ''B-out'' @ [0x0A])),
           Inr (JStr (str ''final'')))]
   \<and> parse_tasks (JStr plan_xy)
       = Some (JObj [(str ''taskA'', JStr (str ''x'')), (str ''taskB'', JStr (str ''y''))])
   \<and> plan_ok env_ok (JObj [(str ''taskA'', JStr (str ''x'')), (str ''taskB'', JStr (str ''y''))])
   \<and> to_string env_ok (JStr (str ''A-out'')) \<noteq> None
   \<and> to_string env_ok (JStr (str ''B-out'' @ [0x0A])) \<noteq> None
   \<and> take 3 (phases (run_trace env_ok hi world1)) = [Planning, Dispatching, Dispatching]
   \<and> take 4 (phases (run_trace env_ok hi world1))
       = [Planning, Dispatching, Dispatching, Synthesizing]
   \<and> phases (run_trace env_ok hi world1)
       = [Planning, Dispatching, Dispatching, Synthesizing, Finalizing]
   \<and> run_result env_ok hi world1 = Inr ()
   \<and> truthy env_worker_fails hi
   \<and> ECall (worker_call (JStr (str ''x''))) (Inl (Error (str ''HTTP 500'')))
       \<in> set (run_trace env_worker_fails hi world1)
   \<and> phases (run_trace env_worker_fails hi world1) = [Planning, Dispatching, Dispatching]
   \<and> Finalizing \<notin> set (phases (run_trace env_worker_fails hi world1))"
proof -
  let ?tasks = "JObj [(str ''taskA'', JStr (str ''x'')), (str ''taskB'', JStr (str ''y''))]"
  let ?p = "orchestrator_call [] hi (user_turn env_ok hi world1)"
  let ?s = "synthesizer_call [] (synthesis_text (str ''A-out'') (str ''B-out'' @ [0x0A]))"
  have t: "truthy env_ok hi" by simp
  have plan: "parse_tasks (JStr plan_xy) = Some ?tasks" "plan_ok env_ok ?tasks"
    by (simp_all add: parse_plan_xy plan_ok_def)
  have out: "to_string env_ok (JStr (str ''A-out'')) \<noteq> None"
    "to_string env_ok (JStr (str ''B-out'' @ [0x0A])) \<noteq> None"
    by simp_all
  have planner: "ECall ?p (Inr (JStr plan_xy)) \<in> set (run_trace env_ok hi world1)"
    "c_systemPrompt ?p = orchestratorPrompt"
    by (simp_all add: set_calls [symmetric] run_ok_calls)
  have synth: "ECall ?s (Inr (JStr (str ''final''))) \<in> set (run_trace env_ok hi world1)"
    "c_systemPrompt ?s = synthesizerPrompt"
    by (simp_all add: set_calls [symmetric] run_ok_calls)
  note ok = C1_phases_in_order [OF t, of world1]
  from ok planner plan have three:
    "take 3 (phases (run_trace env_ok hi world1)) = [Planning, Dispatching, Dispatching]"
    by blast
  from ok run_ok_calls out have four:
    "take 4 (phases (run_trace env_ok hi world1))
       = [Planning, Dispatching, Dispatching, Synthesizing]"
    by blast
  from ok synth have five:
    "phases (run_trace env_ok hi world1)
       = [Planning, Dispatching, Dispatching, Synthesizing, Finalizing]"
    "run_result env_ok hi world1 = Inr ()"
    by blast+
  have t': "truthy env_worker_fails hi" by simp
  have m: "ECall (worker_call (JStr (str ''x''))) (Inl (Error (str ''HTTP 500'')))
       \<in> set (run_trace env_worker_fails hi world1)"
    by (simp add: set_calls [symmetric] run_worker_fails_calls)
  from C1_phases_in_order [OF t', of world1] m have cut:
    "phases (run_trace env_worker_fails hi world1) = [Planning, Dispatching, Dispatching]"
    "Finalizing \<notin> set (phases (run_trace env_worker_fails hi world1))"
    by (metis call_prompts(2))+
  from t run_ok_calls plan out three four five t' m cut show ?thesis
    by simp
qed

text \<open>A run whose plan lacks \<^verbatim>\<open>taskB\<close>.\<close>

theorem C3_invalid_plan_witness:
  "truthy env_bad_plan hi
   \<and> ECall (orchestrator_call [] hi (user_turn env_bad_plan hi world1)) (Inr (JStr plan_x))
       \<in> set (run_trace env_bad_plan hi world1)
   \<and> parse_tasks (JStr plan_x) = Some (JObj [(str ''taskA'', JStr (str ''x''))])
   \<and> get_prop (JObj [(str ''taskA'', JStr (str ''x''))]) (str ''taskB'') = JUndefined
   \<and> run_result env_bad_plan hi world1
       \<in> {Inl (Error (str ''Orchestrator failed to generate a valid plan.'')),
          Inl (Error (str ''Orchestrator response missing taskA or taskB.''))}
   \<and> run_requests env_bad_plan hi world1
       = sent env_bad_plan world1 (orchestrator_call [] hi (user_turn env_bad_plan hi world1))"
proof -
  have t: "truthy env_bad_plan hi" by simp
  have m: "ECall (orchestrator_call [] hi (user_turn env_bad_plan hi world1)) (Inr (JStr plan_x))
       \<in> set (run_trace env_bad_plan hi world1)"
    by (simp add: set_calls [symmetric] run_bad_plan_calls)
  have p: "parse_tasks (JStr plan_x) = Some (JObj [(str ''taskA'', JStr (str ''x''))])"
    by (simp add: parse_plan_x)
  have g: "get_prop (JObj [(str ''taskA'', JStr (str ''x''))]) (str ''taskB'') = JUndefined"
    by simp
  from C3_invalid_plan [OF t m] p g t m show ?thesis
    by simp
qed

text \<open>
  The run in which all four calls succeed, with the outputs \<^verbatim>\<open>A-out\<close> and \<^verbatim>\<open>B-out\<close>
  followed by a line feed, and the run in which the output of worker A is an object with an
  own property \<^verbatim>\<open>toString\<close>.
\<close>

theorem C4_synthesis_input_witness:
  "truthy env_ok hi
   \<and> calls (run_trace env_ok hi world1) =
       (orchestrator_call [] hi (user_turn env_ok hi world1), Inr (JStr plan_xy))
       # (worker_call (JStr (str ''x'')), Inr (JStr (str ''A-out'')))
       # (worker_call (JStr (str ''y'')), Inr (JStr (str ''B-out'' @ [0x0A])))
       # [(synthesizer_call [] (synthesis_text (str ''A-out'') (str ''B-out'' @ [0x0A])),
           Inr (JStr (str ''final'')))]
   \<and> to_string env_ok (JStr (str ''A-out'')) = Some (str ''A-out'')
   \<and> to_string env_ok (JStr (str ''B-out'' @ [0x0A])) = Some (str ''B-out'' @ [0x0A])
   \<and> map fst [(synthesizer_call [] (synthesis_text (str ''A-out'') (str ''B-out'' @ [0x0A])),
                Inr (JStr (str ''final'')) :: error + jsval)]
       = [synthesizer_call (map hist_of_message (messages world1))
            (synthesis_text (str ''A-out'') (str ''B-out'' @ [0x0A]))]
   \<and> truthy env_object_output hi
   \<and> calls (run_trace env_object_output hi world1) =
       (orchestrator_call [] hi (user_turn env_object_output hi world1), Inr (JStr plan_xy))
       # (worker_call (JStr (str ''x'')), Inr unconvertible)
       # (worker_call (JStr (str ''y'')), Inr (JStr (str ''B-out''))) # []
   \<and> to_string env_object_output unconvertible = None
   \<and> run_result env_object_output hi world1
       = Inl (Error (cannot_convert env_object_output))"
proof -
  have t: "truthy env_ok hi" by simp
  have s: "to_string env_ok (JStr (str ''A-out'')) = Some (str ''A-out'')"
    "to_string env_ok (JStr (str ''B-out'' @ [0x0A])) = Some (str ''B-out'' @ [0x0A])"
    by simp_all
  from C4_synthesis_input [OF t, of world1, OF run_ok_calls] s
  have first: "map fst [(synthesizer_call []
                  (synthesis_text (str ''A-out'') (str ''B-out'' @ [0x0A])),
                Inr (JStr (str ''final'')) :: error + jsval)]
       = [synthesizer_call (map hist_of_message (messages world1))
            (synthesis_text (str ''A-out'') (str ''B-out'' @ [0x0A]))]"
    by blast
  have t': "truthy env_object_output hi" by simp
  have n: "to_string env_object_output unconvertible = None" by simp
  from C4_synthesis_input [OF t', of world1, OF run_object_output_calls] n
  have second: "run_result env_object_output hi world1
       = Inl (Error (cannot_convert env_object_output))"
    by blast
  from t s first t' n second run_ok_calls run_object_output_calls show ?thesis
    by simp
qed

text \<open>
  In the run in which all four calls succeed worker B's output is \<^verbatim>\<open>B-out\<close> and a line
  feed. The text of the synthesizer call ends in \<^verbatim>\<open>B-out\<close>: the output is not in it
  verbatim.
\<close>

theorem C4_verbatim_counterexample:
  "calls (run_trace env_ok hi world1) ! 2
     = (worker_call (JStr (str ''y'')), Inr (JStr (str ''B-out'' @ [0x0A])))
   \<and> fst (calls (run_trace env_ok hi world1) ! 3)
     = synthesizer_call []
         (str ''--- WORKER A OUTPUT ---'' @ [0x0A] @ str ''A-out'' @ [0x0A, 0x0A]
          @ str ''--- WORKER B OUTPUT ---'' @ [0x0A] @ str ''B-out'')
   \<and> \<not> sublist (str ''B-out'' @ [0x0A])
         (str ''--- WORKER A OUTPUT ---'' @ [0x0A] @ str ''A-out'' @ [0x0A, 0x0A]
          @ str ''--- WORKER B OUTPUT ---'' @ [0x0A] @ str ''B-out'')"
proof -
  have "\<not> sublist (str ''B-out'' @ [0x0A])
         (str ''--- WORKER A OUTPUT ---'' @ [0x0A] @ str ''A-out'' @ [0x0A, 0x0A]
          @ str ''--- WORKER B OUTPUT ---'' @ [0x0A] @ str ''B-out'')"
    by (simp add: str_def sublist_code)
  then show ?thesis
    by (simp add: run_ok_calls synthesis_text_ok)
qed

text \<open>
  The request of worker A in the run in which all four calls succeed, and the run in which
  the plan's \<^verbatim>\<open>taskA\<close> is an object with an own property \<^verbatim>\<open>toString\<close>: the call of
  worker A sends no request, and the run sends two.
\<close>

theorem C5_context_isolation_witness:
  "truthy env_ok hi
   \<and> (worker_call (JStr (str ''x'')), Inr (JStr (str ''A-out'')))
       \<in> set (calls (run_trace env_ok hi world1))
   \<and> to_string env_ok (JStr (str ''x'')) = Some (str ''x'')
   \<and> length (sent env_ok world1 (worker_call (JStr (str ''x'')))) = 1
   \<and> contents (body (hd (sent env_ok world1 (worker_call (JStr (str ''x''))))))
       = personaPrefix workerSystemPrompt
         @ [\<lparr>t_role = str ''user'', t_parts = [Text (str ''x'')]\<rparr>]
   \<and> length (run_requests env_ok hi world1) = 4
   \<and> truthy env_object_task hi
   \<and> (worker_call unconvertible,
       Inl (Error (str ''Cannot convert object to primitive value'')))
       \<in> set (calls (run_trace env_object_task hi world1))
   \<and> to_string env_object_task unconvertible = None
   \<and> sent env_object_task world1 (worker_call unconvertible) = []
   \<and> length (run_requests env_object_task hi world1) = 2"
proof -
  have t: "truthy env_ok hi" by simp
  have m: "(worker_call (JStr (str ''x'')), Inr (JStr (str ''A-out'')))
       \<in> set (calls (run_trace env_ok hi world1))"
    by (simp add: run_ok_calls)
  have c: "to_string env_ok (JStr (str ''x'')) = Some (str ''x'')" by simp
  have l: "length (sent env_ok world1 (worker_call (JStr (str ''x'')))) = 1"
    by (simp add: length_sent_world1 js_or_def)
  then have s: "hd (sent env_ok world1 (worker_call (JStr (str ''x''))))
             \<in> set (sent env_ok world1 (worker_call (JStr (str ''x''))))"
    by (cases "sent env_ok world1 (worker_call (JStr (str ''x'')))") simp_all
  note ok = C5_context_isolation [OF t, of world1]
  from ok have
    all: "\<forall>c \<in> set (calls (run_trace env_ok hi world1)).
            c_systemPrompt (fst c) = workerSystemPrompt \<longrightarrow>
              (\<forall>task. to_string env_ok (c_newUserText (fst c)) = Some task \<longrightarrow>
                 (\<forall>rq \<in> set (sent env_ok world1 (fst c)).
                     contents (body rq) =
                       personaPrefix workerSystemPrompt
                       @ [\<lparr>t_role = str ''user'', t_parts = [Text task]\<rparr>]))"
    and rq: "run_requests env_ok hi world1
             = concat (map (\<lambda>c. sent env_ok world1 (fst c)) (calls (run_trace env_ok hi world1)))"
    by blast+
  from bspec [OF all m] c s have body:
    "contents (body (hd (sent env_ok world1 (worker_call (JStr (str ''x''))))))
       = personaPrefix workerSystemPrompt
         @ [\<lparr>t_role = str ''user'', t_parts = [Text (str ''x'')]\<rparr>]"
    by simp
  from rq have four: "length (run_requests env_ok hi world1) = 4"
    by (simp add: run_ok_calls length_sent_world1 js_or_def orchestrator_call_def
        synthesizer_call_def)
  have t': "truthy env_object_task hi" by simp
  have m': "(worker_call unconvertible,
       Inl (Error (str ''Cannot convert object to primitive value'')))
       \<in> set (calls (run_trace env_object_task hi world1))"
    by (simp add: run_object_task_calls)
  have c': "to_string env_object_task unconvertible = None" by simp
  note obj = C5_context_isolation [OF t', of world1]
  from obj have
    all': "\<forall>c \<in> set (calls (run_trace env_object_task hi world1)).
            c_systemPrompt (fst c) = workerSystemPrompt \<longrightarrow>
              (to_string env_object_task (c_newUserText (fst c)) = None \<longrightarrow>
                 sent env_object_task world1 (fst c) = [])"
    and rq': "run_requests env_object_task hi world1
             = concat (map (\<lambda>c. sent env_object_task world1 (fst c))
                 (calls (run_trace env_object_task hi world1)))"
    by blast+
  from bspec [OF all' m'] c' have none: "sent env_object_task world1 (worker_call unconvertible) = []"
    by simp
  from rq' none have two: "length (run_requests env_object_task hi world1) = 2"
    by (simp add: run_object_task_calls length_sent_world1 js_or_def orchestrator_call_def)
  from t m c l body four t' m' c' none two show ?thesis
    by simp
qed






section \<open>The planner reply\<close>

text \<open>
  C2. A planner reply that wraps the object \<^verbatim>\<open>{"taskA":"x","taskB":"y"}\<close> in the fence
  markers \<^verbatim>\<open>```json\<close> and \<^verbatim>\<open>```\<close>, each on a line of its own: the text handed to
  \<^verbatim>\<open>JSON.parse\<close> is the object alone, without the markers, and the parsed plan is the
  object with the two properties \<^verbatim>\<open>taskA = "x"\<close> and \<^verbatim>\<open>taskB = "y"\<close>.
\<close>

theorem C2_fenced_plan:
  \<open>cleanJson (str ''```json\<newline>{"taskA":"x","taskB":"y"}\<newline>```'') = str ''{"taskA":"x","taskB":"y"}''
   \<and> parse_tasks (JStr (str ''```json\<newline>{"taskA":"x","taskB":"y"}\<newline>```''))
       = Some (JObj [(str ''taskA'', JStr (str ''x'')), (str ''taskB'', JStr (str ''y''))])\<close>
  by (simp add: str_def cleanJson_def trim_def trimEnd_def js_ws_def JSON_parse_def lex_idle_def
      json_ws_def is_digit_def is_lower_def is_num_char_def after_token_def)

section \<open>The transport\<close>

text \<open>
  C8. If no API key is stored, or the stored key is the empty string, the transport call
  fails with the error \<^verbatim>\<open>No API key saved.\<close> and hands no request to the network,
  whatever its arguments are.
\<close>

theorem C8_missing_credential:
  assumes "LS w (str ''aura:apikey'') = None \<or> LS w (str ''aura:apikey'') = Some []"
  shows "snd (fetchAPIBackground e history newUserText imageBase64 systemPrompt modelOverride w)
           = Inl (Error (str ''No API key saved.''))
         \<and> requests (fst (fetchAPIBackground e history newUserText imageBase64 systemPrompt
                            modelOverride w)) = requests w"
  using assms by (auto simp: fetchAPIBackground_def transport_def LS_get_def)

theorem C8_missing_credential_witness:
  "LS world0 (str ''aura:apikey'') = None
   \<and> snd (fetchAPIBackground env0 [] (JStr (str ''hi'')) None [] [] world0)
       = Inl (Error (str ''No API key saved.''))
   \<and> requests (fst (fetchAPIBackground env0 [] (JStr (str ''hi'')) None [] [] world0)) = []"
  using C8_missing_credential [of world0 env0 "[]" "JStr (str ''hi'')" None "[]" "[]"]
  by (simp add: world0_def)

section \<open>The run\<close>

text \<open>
  C10. Called with a falsy user text (the empty string, \<^verbatim>\<open>undefined\<close>, \<^verbatim>\<open>null\<close>, ...),
  \<^verbatim>\<open>runAgentMode\<close> returns at once and leaves the world as it was: no turn appended, the
  submit control and the streaming flag untouched, no terminal bubble, no request.
\<close>

theorem C10_falsy_input_no_effect:
  "\<not> truthy e userText \<Longrightarrow> runAgentMode e userText w = w"
  by (simp add: runAgentMode_def)

theorem C10_falsy_input_no_effect_witness:
  "\<not> truthy env0 (JStr []) \<and> runAgentMode env0 (JStr []) world0 = world0"
  using C10_falsy_input_no_effect [of env0 "JStr []" world0] by simp

end
